theory Spec2Isabelle
  imports Complex_Main "HOL-Library.Word"
begin

section \<open>Pixels, images and pixmaps\<close>

text \<open>
  A pixel of a \<^verbatim>\<open>QImage.Format_ARGB32\<close> buffer, written in the argument order of
  \<^verbatim>\<open>QColor(r, g, b, a)\<close>: four 8-bit channels.
\<close>

datatype qcolor = QColor (qRed: "8 word") (qGreen: "8 word") (qBlue: "8 word") (qAlpha: "8 word")

text \<open>
  A \<^verbatim>\<open>QImage\<close> or \<^verbatim>\<open>QPixmap\<close> is its pixel buffer, a list of rows. The null image
  has no pixels; \<^verbatim>\<open>width()\<close> and \<^verbatim>\<open>height()\<close> are read off the buffer.
\<close>

type_synonym qimage = "qcolor list list"

definition img_width :: "qimage \<Rightarrow> int" where
  "img_width img = (case img of [] \<Rightarrow> 0 | row # _ \<Rightarrow> int (length row))"

definition img_height :: "qimage \<Rightarrow> int" where
  "img_height img = int (length img)"

definition isNull :: "qimage \<Rightarrow> bool" where
  "isNull img = (img_width img \<le> 0 \<or> img_height img \<le> 0)"

text \<open>\<^verbatim>\<open>pixmap.rect()\<close>: left, top, width, height.\<close>

type_synonym qrect = "int \<times> int \<times> int \<times> int"

definition img_rect :: "qimage \<Rightarrow> qrect" where
  "img_rect img = (0, 0, img_width img, img_height img)"

text \<open>The pixel at column \<open>x\<close>, row \<open>y\<close>; \<open>None\<close> outside the buffer.\<close>

definition pixel :: "qimage \<Rightarrow> nat \<Rightarrow> nat \<Rightarrow> qcolor option" where
  "pixel img x y =
     (if y < length img then (if x < length (img ! y) then Some (img ! y ! x) else None)
      else None)"

text \<open>\<^verbatim>\<open>img.fill(c)\<close> overwrites every pixel.\<close>

definition fill :: "qcolor \<Rightarrow> qimage \<Rightarrow> qimage" where
  "fill c img = map (map (\<lambda>_. c)) img"

text \<open>
  A function applied to every pixel of the buffer together with its coordinates; pixels
  that do not exist are never written, which is the clipping of a painter at the image's
  bounds.
\<close>

definition map_pixels :: "(int \<Rightarrow> int \<Rightarrow> qcolor \<Rightarrow> qcolor) \<Rightarrow> qimage \<Rightarrow> qimage" where
  "map_pixels f img =
     map (\<lambda>(y, row). map (\<lambda>(x, c). f (int x) (int y) c) (enumerate 0 row)) (enumerate 0 img)"

section \<open>Transforms and view geometry\<close>

record qtransform =
  m11 :: real
  m12 :: real
  m13 :: real
  m21 :: real
  m22 :: real
  m23 :: real
  m31 :: real
  m32 :: real
  m33 :: real

definition identity_transform :: qtransform where
  "identity_transform =
     \<lparr>m11 = 1, m12 = 0, m13 = 0, m21 = 0, m22 = 1, m23 = 0, m31 = 0, m32 = 0, m33 = 1\<rparr>"

text \<open>
  What a \<^verbatim>\<open>QGraphicsView\<close> keeps of its geometry: the view matrix and the values of
  its two scroll bars.
\<close>

record geom =
  g_transform :: qtransform
  g_hbar :: int
  g_vbar :: int

definition initial_geom :: geom where
  "initial_geom = \<lparr>g_transform = identity_transform, g_hbar = 0, g_vbar = 0\<rparr>"

section \<open>Widgets\<close>

datatype tool_mode = ToolNone | Erase | Paint

datatype drag_mode = NoDrag | ScrollHandDrag

datatype item_id = PixmapItem | OverlayItem | PreviewItem

datatype callback = On_interaction_start | On_interaction_end | Update_mirror

text \<open>
  The cursor built by \<^verbatim>\<open>update_cursor\<close>: a square transparent image of side
  \<open>glyph_size\<close> with one filled ellipse, and the hot spot.
\<close>

record cursor_glyph =
  glyph_size :: int
  glyph_ellipse :: qrect
  glyph_brush :: qcolor
  hot_x :: int
  hot_y :: int

datatype qcursor = ArrowCursor | PixmapCursor cursor_glyph

datatype label_content = LabelText string | LabelPixmap qimage

datatype mouse_button = NoButton | LeftButton | RightButton | MiddleButton

record qmouse_event =
  me_button :: mouse_button
  me_buttons :: "mouse_button set"
  me_pos :: "int \<times> int"

text \<open>
  A wheel event as the handler reads it: \<^verbatim>\<open>event.position().toPoint()\<close> and
  \<^verbatim>\<open>event.angleDelta().y()\<close>.
\<close>

record qwheel_event =
  we_point :: "int \<times> int"
  we_angleDelta_y :: int

datatype mouse_phase = MousePress | MouseRelease | MouseMove

datatype orientation = Horizontal | Vertical

record MyGraphicsView =
  geom :: geom
  dragMode :: drag_mode
  cursor :: qcursor
  interaction_start_callback :: "callback option"
  interaction_end_callback :: "callback option"
  update_callback :: "callback option"
  overlay_image :: "qimage option"
  overlay_item :: "item_id option"
  tool :: tool_mode
  brush_radius :: int

datatype window_ref = MainWindowRef

record MirrorWindow =
  m_main_window :: "window_ref option"
  m_label :: label_content
  m_visible :: bool

record StaticMirrorWindow =
  sm_main_window :: "window_ref option"
  sm_label :: label_content
  sm_label_size :: "int \<times> int"
  sm_original_pixmap :: "qimage option"
  sm_visible :: bool

record MainWindow =
  visible :: bool
  tabs_currentIndex :: int
  items :: "item_id \<Rightarrow> qimage"
  interactive_sceneRect :: qrect
  preview_sceneRect :: qrect
  view :: MyGraphicsView
  preview_view :: geom
  static_label :: label_content
  static_label_size :: "int \<times> int"
  mirror_window :: MirrorWindow
  static_mirror_window :: StaticMirrorWindow
  erase_btn :: bool
  paint_btn :: bool
  brush_slider :: int
  interaction_timer :: bool

section \<open>The toolkit\<close>

text \<open>
  The program is glue over Qt. What a Qt primitive computes is not in the source, so each
  primitive the source calls is a parameter; every theorem holds for all of them.
  \<open>fl_round\<close> is the rounding of a double-precision operation: Python's \<^verbatim>\<open>a + b\<close> on
  floats is \<open>fl_round (a + b)\<close>.

  The mouse handlers of \<^verbatim>\<open>QGraphicsView\<close> itself (\<^verbatim>\<open>super().mousePressEvent\<close> and the
  like) can move the scroll bars when the drag mode is \<^verbatim>\<open>ScrollHandDrag\<close>; they never
  touch the view matrix, so \<open>qt_base_mouse\<close> returns scroll-bar values only.
\<close>

record toolkit =
  fl_round :: "real \<Rightarrow> real"
  qt_uninitialized :: "nat \<Rightarrow> nat \<Rightarrow> qcolor"
  qt_image_too_large :: "int \<Rightarrow> int \<Rightarrow> bool"
  qt_mapToScene :: "geom \<Rightarrow> int \<times> int \<Rightarrow> real \<times> real"
  qt_item_mapFromScene :: "item_id \<Rightarrow> real \<times> real \<Rightarrow> real \<times> real"
  qt_scale :: "real \<Rightarrow> real \<Rightarrow> geom \<Rightarrow> geom"
  qt_translate :: "real \<Rightarrow> real \<Rightarrow> geom \<Rightarrow> geom"
  qt_fitInView :: "qrect \<Rightarrow> geom \<Rightarrow> geom"
  qt_setTransform :: "qtransform \<Rightarrow> geom \<Rightarrow> geom"
  qt_bar_setValue :: "orientation \<Rightarrow> int \<Rightarrow> geom \<Rightarrow> geom"
  qt_base_mouse :: "mouse_phase \<Rightarrow> drag_mode \<Rightarrow> qmouse_event \<Rightarrow> geom \<Rightarrow> int \<times> int"
  qt_ellipse_fill :: "qrect \<Rightarrow> int \<Rightarrow> int \<Rightarrow> bool"
  qt_ellipse_outline :: "qrect \<Rightarrow> int \<Rightarrow> int \<Rightarrow> bool"
  qt_source_over :: "qcolor \<Rightarrow> qcolor \<Rightarrow> qcolor"
  qt_grab :: "geom \<Rightarrow> (item_id \<Rightarrow> qimage) \<Rightarrow> qimage"
  qt_load_pixmap :: "string \<Rightarrow> qimage"
  qt_scaled :: "qimage \<Rightarrow> int \<times> int \<Rightarrow> qimage"

subsection \<open>Python floats and integers\<close>

definition fl_add :: "toolkit \<Rightarrow> real \<Rightarrow> real \<Rightarrow> real" where
  "fl_add tk a b = fl_round tk (a + b)"

definition fl_sub :: "toolkit \<Rightarrow> real \<Rightarrow> real \<Rightarrow> real" where
  "fl_sub tk a b = fl_round tk (a - b)"

definition fl_mul :: "toolkit \<Rightarrow> real \<Rightarrow> real \<Rightarrow> real" where
  "fl_mul tk a b = fl_round tk (a * b)"

definition fl_div :: "toolkit \<Rightarrow> real \<Rightarrow> real \<Rightarrow> real" where
  "fl_div tk a b = fl_round tk (a / b)"

definition fl_of_int :: "toolkit \<Rightarrow> int \<Rightarrow> real" where
  "fl_of_int tk i = fl_round tk (of_int i)"

text \<open>\<^verbatim>\<open>int(x)\<close> on a float truncates towards zero.\<close>

definition py_int :: "real \<Rightarrow> int" where
  "py_int x = (if 0 \<le> x then \<lfloor>x\<rfloor> else \<lceil>x\<rceil>)"

subsection \<open>Images and painters\<close>

text \<open>
  \<^verbatim>\<open>QImage(w, h, Format_ARGB32)\<close>: a buffer of \<open>h\<close> rows of \<open>w\<close> pixels whose content is
  not initialised; the null image when either is not positive.
\<close>

definition QImage_new :: "toolkit \<Rightarrow> int \<Rightarrow> int \<Rightarrow> qimage" where
  "QImage_new tk w h =
     (if w \<le> 0 \<or> h \<le> 0 then []
      else map (\<lambda>y. map (\<lambda>x. qt_uninitialized tk x y) [0..<nat w]) [0..<nat h])"

text \<open>
  \<^verbatim>\<open>QImage(w, h, Format_ARGB32)\<close> is the null image also when Qt cannot allocate a buffer
  of that size; which sizes those are is for the toolkit and the machine to say
  (\<open>qt_image_too_large\<close>). The overlay is built with \<open>QImage_new\<close>: it has the size of a
  pixmap that was decoded just before. The image of the brush cursor has no such bound,
  its side grows with brush radius times zoom.
\<close>

definition QImage_alloc :: "toolkit \<Rightarrow> int \<Rightarrow> int \<Rightarrow> qimage" where
  "QImage_alloc tk w h = (if qt_image_too_large tk w h then [] else QImage_new tk w h)"

datatype composition_mode =
  CompositionMode_SourceOver | CompositionMode_Clear | CompositionMode_Source

record qpainter =
  compositionMode :: composition_mode
  pen :: "qcolor option"
  brush :: "qcolor option"

text \<open>A freshly constructed \<^verbatim>\<open>QPainter\<close>: source-over, a black pen, no brush.\<close>

definition default_painter :: qpainter where
  "default_painter =
     \<lparr>compositionMode = CompositionMode_SourceOver, pen = Some (QColor 0 0 0 255),
      brush = None\<rparr>"

definition compose :: "toolkit \<Rightarrow> composition_mode \<Rightarrow> qcolor \<Rightarrow> qcolor \<Rightarrow> qcolor" where
  "compose tk mode src dst =
     (case mode of
        CompositionMode_Clear \<Rightarrow> QColor 0 0 0 0
      | CompositionMode_Source \<Rightarrow> src
      | CompositionMode_SourceOver \<Rightarrow> qt_source_over tk src dst)"

text \<open>
  \<^verbatim>\<open>painter.drawEllipse(x, y, w, h)\<close> without antialiasing: the brush composes onto the
  pixels of the interior, then the pen onto the pixels of the outline.
\<close>

definition drawEllipse :: "toolkit \<Rightarrow> qpainter \<Rightarrow> int \<Rightarrow> int \<Rightarrow> int \<Rightarrow> int \<Rightarrow> qimage \<Rightarrow> qimage" where
  "drawEllipse tk p x y w h img =
     map_pixels (\<lambda>px py c.
       let c1 = (case brush p of
                   None \<Rightarrow> c
                 | Some b \<Rightarrow> if qt_ellipse_fill tk (x, y, w, h) px py
                             then compose tk (compositionMode p) b c else c)
       in (case pen p of
             None \<Rightarrow> c1
           | Some q \<Rightarrow> if qt_ellipse_outline tk (x, y, w, h) px py
                       then compose tk (compositionMode p) q c1 else c1)) img"

section \<open>MyGraphicsView\<close>

definition set_overlay :: "qimage \<Rightarrow> item_id \<Rightarrow> MyGraphicsView \<Rightarrow> MyGraphicsView" where
  "set_overlay overlay_img item v = v\<lparr>overlay_image := Some overlay_img, overlay_item := Some item\<rparr>"

definition set_interaction_callbacks ::
  "callback \<Rightarrow> callback \<Rightarrow> callback \<Rightarrow> MyGraphicsView \<Rightarrow> MyGraphicsView" where
  "set_interaction_callbacks start_callback end_callback update_cb v =
     v\<lparr>interaction_start_callback := Some start_callback,
        interaction_end_callback := Some end_callback,
        update_callback := Some update_cb\<rparr>"

definition scale_factor :: "toolkit \<Rightarrow> qtransform \<Rightarrow> real" where
  "scale_factor tk tr = fl_div tk (fl_add tk (m11 tr) (m22 tr)) 2"

definition screen_radius :: "toolkit \<Rightarrow> int \<Rightarrow> qtransform \<Rightarrow> int" where
  "screen_radius tk r tr = max 1 (py_int (fl_mul tk (fl_of_int tk r) (scale_factor tk tr)))"

text \<open>
  \<^verbatim>\<open>update_cursor\<close> paints the glyph on a transparent square image, makes a pixmap of it
  and a cursor of the pixmap. It does not look at whether the image is null: on a null
  image the painter draws nothing, the pixmap is null, and \<^verbatim>\<open>QCursor(pix, x, y)\<close> of a
  null pixmap is the arrow cursor.
\<close>

definition cursor_size :: "int \<Rightarrow> int" where
  "cursor_size sr = max 64 (sr * 2 + 10)"

definition cursor_image :: "toolkit \<Rightarrow> int \<Rightarrow> qimage" where
  "cursor_image tk sr =
     fill (QColor 0 0 0 0) (QImage_alloc tk (cursor_size sr) (cursor_size sr))"

definition brush_cursor :: "int \<Rightarrow> qcursor" where
  "brush_cursor sr =
     (let size = cursor_size sr;
          center = size div 2
      in PixmapCursor
           \<lparr>glyph_size = size,
            glyph_ellipse = (center - sr, center - sr, sr * 2, sr * 2),
            glyph_brush = QColor 255 255 255 100,
            hot_x = center, hot_y = center\<rparr>)"

definition update_cursor :: "toolkit \<Rightarrow> MyGraphicsView \<Rightarrow> MyGraphicsView" where
  "update_cursor tk v =
     (if tool v \<notin> {Erase, Paint} then v\<lparr>cursor := ArrowCursor\<rparr>
      else
        (let sr = screen_radius tk (brush_radius v) (g_transform (geom v));
             img = cursor_image tk sr
         in v\<lparr>cursor := (if isNull img then ArrowCursor else brush_cursor sr)\<rparr>))"

definition set_tool :: "toolkit \<Rightarrow> tool_mode \<Rightarrow> MyGraphicsView \<Rightarrow> MyGraphicsView" where
  "set_tool tk tool_name v =
     (let v1 = v\<lparr>tool := tool_name\<rparr>
      in if tool v1 = ToolNone then v1\<lparr>dragMode := ScrollHandDrag, cursor := ArrowCursor\<rparr>
         else update_cursor tk (v1\<lparr>dragMode := NoDrag\<rparr>))"

definition set_brush_radius :: "toolkit \<Rightarrow> int \<Rightarrow> MyGraphicsView \<Rightarrow> MyGraphicsView" where
  "set_brush_radius tk radius v =
     (let v1 = v\<lparr>brush_radius := radius\<rparr>
      in if tool v1 \<in> {Erase, Paint} then update_cursor tk v1 else v1)"

text \<open>The on-screen radius of a cursor's circle: half the width of its ellipse.\<close>

definition cursor_radius :: "qcursor \<Rightarrow> int option" where
  "cursor_radius c =
     (case c of
        ArrowCursor \<Rightarrow> None
      | PixmapCursor g \<Rightarrow> (case glyph_ellipse g of (_, _, w, _) \<Rightarrow> Some (w div 2)))"

section \<open>MirrorWindow and StaticMirrorWindow\<close>

definition set_mirror_pixmap :: "qimage \<Rightarrow> MirrorWindow \<Rightarrow> MirrorWindow" where
  "set_mirror_pixmap pm w = w\<lparr>m_label := LabelPixmap pm\<rparr>"

text \<open>
  A close event is accepted (\<open>True\<close>) or ignored (\<open>False\<close>); the handler changes nothing
  else. \<^verbatim>\<open>self.main_window.isVisible()\<close> reads the main window.
\<close>

definition MirrorWindow_closeEvent :: "MainWindow \<Rightarrow> bool" where
  "MirrorWindow_closeEvent s =
     (if m_main_window (mirror_window s) \<noteq> None \<and> visible s then False else True)"

definition StaticMirrorWindow_closeEvent :: "MainWindow \<Rightarrow> bool" where
  "StaticMirrorWindow_closeEvent s =
     (if sm_main_window (static_mirror_window s) \<noteq> None \<and> visible s then False else True)"

text \<open>
  \<^verbatim>\<open>QWidget.close()\<close>, and a close request of the window system alike: the widget's
  \<^verbatim>\<open>closeEvent\<close> runs, and the widget is hidden when the event was accepted.
\<close>

definition MirrorWindow_close :: "MainWindow \<Rightarrow> MainWindow" where
  "MirrorWindow_close s =
     (if MirrorWindow_closeEvent s
      then s\<lparr>mirror_window := (mirror_window s)\<lparr>m_visible := False\<rparr>\<rparr> else s)"

definition StaticMirrorWindow_close :: "MainWindow \<Rightarrow> MainWindow" where
  "StaticMirrorWindow_close s =
     (if StaticMirrorWindow_closeEvent s
      then s\<lparr>static_mirror_window := (static_mirror_window s)\<lparr>sm_visible := False\<rparr>\<rparr> else s)"

definition update_display :: "toolkit \<Rightarrow> StaticMirrorWindow \<Rightarrow> StaticMirrorWindow" where
  "update_display tk w =
     (case sm_original_pixmap w of
        None \<Rightarrow> w
      | Some pm \<Rightarrow>
          if isNull pm then w
          else w\<lparr>sm_label := LabelPixmap (qt_scaled tk pm (sm_label_size w))\<rparr>)"

definition set_image :: "toolkit \<Rightarrow> qimage \<Rightarrow> StaticMirrorWindow \<Rightarrow> StaticMirrorWindow" where
  "set_image tk pixmap w = update_display tk (w\<lparr>sm_original_pixmap := Some pixmap\<rparr>)"

section \<open>MainWindow\<close>

definition sync_preview_transform :: "toolkit \<Rightarrow> MainWindow \<Rightarrow> MainWindow" where
  "sync_preview_transform tk s =
     (let tr = g_transform (geom (view s));
          p1 = qt_setTransform tk tr (preview_view s);
          p2 = qt_bar_setValue tk Horizontal (g_hbar (geom (view s))) p1;
          p3 = qt_bar_setValue tk Vertical (g_vbar (geom (view s))) p2
      in s\<lparr>preview_view := p3\<rparr>)"

text \<open>
  A change of the view's geometry by the toolkit. The \<^verbatim>\<open>valueChanged\<close> signals of the
  view's two scroll bars are connected to \<^verbatim>\<open>sync_preview_transform\<close>.
\<close>

definition set_view_geom :: "toolkit \<Rightarrow> geom \<Rightarrow> MainWindow \<Rightarrow> MainWindow" where
  "set_view_geom tk g s =
     (let old = geom (view s);
          s1 = s\<lparr>view := (view s)\<lparr>geom := g\<rparr>\<rparr>;
          s2 = (if g_hbar g \<noteq> g_hbar old then sync_preview_transform tk s1 else s1)
      in if g_vbar g \<noteq> g_vbar old then sync_preview_transform tk s2 else s2)"

definition on_interaction_start :: "MainWindow \<Rightarrow> MainWindow" where
  "on_interaction_start s = (if \<not> interaction_timer s then s\<lparr>interaction_timer := True\<rparr> else s)"

definition on_interaction_end :: "MainWindow \<Rightarrow> MainWindow" where
  "on_interaction_end s = (if interaction_timer s then s\<lparr>interaction_timer := False\<rparr> else s)"

definition update_mirror :: "toolkit \<Rightarrow> MainWindow \<Rightarrow> MainWindow" where
  "update_mirror tk s =
     (let screenshot = qt_grab tk (geom (view s)) (items s);
          s1 = s\<lparr>mirror_window := set_mirror_pixmap screenshot (mirror_window s)\<rparr>;
          s2 = sync_preview_transform tk s1
      in if tool (view s2) \<in> {Erase, Paint} then s2\<lparr>view := update_cursor tk (view s2)\<rparr> else s2)"

text \<open>Calling a callback attribute of the view: a bound method of the main window.\<close>

definition invoke :: "toolkit \<Rightarrow> callback \<Rightarrow> MainWindow \<Rightarrow> MainWindow" where
  "invoke tk cb s =
     (case cb of
        On_interaction_start \<Rightarrow> on_interaction_start s
      | On_interaction_end \<Rightarrow> on_interaction_end s
      | Update_mirror \<Rightarrow> update_mirror tk s)"

text \<open>\<^verbatim>\<open>if self._callback: self._callback()\<close>\<close>

definition call_if_set :: "toolkit \<Rightarrow> callback option \<Rightarrow> MainWindow \<Rightarrow> MainWindow" where
  "call_if_set tk cbo s = (case cbo of None \<Rightarrow> s | Some cb \<Rightarrow> invoke tk cb s)"

subsection \<open>The view's event handlers\<close>

text \<open>
  \<^verbatim>\<open>not self.overlay_image\<close> holds for \<^verbatim>\<open>None\<close> and for a null image, \<^verbatim>\<open>not
  self.overlay_item\<close> for \<^verbatim>\<open>None\<close>. The painter keeps its defaults when the tool is
  neither erase nor paint. The overlay item receives a copy of the painted image.
\<close>

definition brush_painter :: "tool_mode \<Rightarrow> qpainter" where
  "brush_painter t =
     (case t of
        Erase \<Rightarrow> default_painter\<lparr>compositionMode := CompositionMode_Clear, pen := None,
                                  brush := Some (QColor 255 255 255 255)\<rparr>
      | Paint \<Rightarrow> default_painter\<lparr>compositionMode := CompositionMode_Source, pen := None,
                                  brush := Some (QColor 0 0 0 255)\<rparr>
      | ToolNone \<Rightarrow> default_painter)"

text \<open>The pointer's position in the overlay item's coordinates, truncated to integers.\<close>

definition brush_center :: "toolkit \<Rightarrow> int \<times> int \<Rightarrow> item_id \<Rightarrow> MyGraphicsView \<Rightarrow> int \<times> int" where
  "brush_center tk view_pos item v =
     (let scene_point = qt_mapToScene tk (geom v) view_pos;
          item_point = qt_item_mapFromScene tk item scene_point;
          x = py_int (fst item_point);
          y = py_int (snd item_point)
      in (x, y))"

definition apply_brush :: "toolkit \<Rightarrow> int \<times> int \<Rightarrow> MainWindow \<Rightarrow> MainWindow" where
  "apply_brush tk view_pos s =
     (case overlay_image (view s) of
        None \<Rightarrow> s
      | Some img \<Rightarrow>
          (case overlay_item (view s) of
             None \<Rightarrow> s
           | Some item \<Rightarrow>
               if isNull img then s
               else
                 (case brush_center tk view_pos item (view s) of
                    (x, y) \<Rightarrow>
                      (let r = brush_radius (view s);
                           painter = brush_painter (tool (view s));
                           img' = drawEllipse tk painter (x - r) (y - r) (r * 2) (r * 2) img
                       in s\<lparr>view := (view s)\<lparr>overlay_image := Some img'\<rparr>,
                             items := (items s)(item := img')\<rparr>))))"

text \<open>The inherited handler of \<^verbatim>\<open>QGraphicsView\<close>, called last by each mouse handler.\<close>

definition super_mouseEvent ::
  "toolkit \<Rightarrow> mouse_phase \<Rightarrow> qmouse_event \<Rightarrow> MainWindow \<Rightarrow> MainWindow" where
  "super_mouseEvent tk phase ev s =
     (let g = geom (view s);
          hv = qt_base_mouse tk phase (dragMode (view s)) ev g
      in set_view_geom tk (g\<lparr>g_hbar := fst hv, g_vbar := snd hv\<rparr>) s)"

definition wheelEvent :: "toolkit \<Rightarrow> qwheel_event \<Rightarrow> MainWindow \<Rightarrow> MainWindow" where
  "wheelEvent tk ev s =
     (if tool (view s) \<noteq> ToolNone then s
      else
        (let s1 = call_if_set tk (interaction_start_callback (view s)) s;
             old_pos = qt_mapToScene tk (geom (view s1)) (we_point ev);
             zoom_factor = (if we_angleDelta_y ev > 0 then fl_round tk (12 / 10)
                            else fl_div tk 1 (fl_round tk (12 / 10)));
             s2 = set_view_geom tk (qt_scale tk zoom_factor zoom_factor (geom (view s1))) s1;
             new_pos = qt_mapToScene tk (geom (view s2)) (we_point ev);
             delta = (fl_sub tk (fst new_pos) (fst old_pos), fl_sub tk (snd new_pos) (snd old_pos));
             s3 = set_view_geom tk (qt_translate tk (fst delta) (snd delta) (geom (view s2))) s2
         in call_if_set tk (update_callback (view s3)) s3))"

definition mousePressEvent :: "toolkit \<Rightarrow> qmouse_event \<Rightarrow> MainWindow \<Rightarrow> MainWindow" where
  "mousePressEvent tk ev s =
     (let s' =
        (if me_button ev = LeftButton then
           (if tool (view s) \<in> {Erase, Paint} then
              (let s1 = call_if_set tk (interaction_start_callback (view s)) s;
                   s2 = apply_brush tk (me_pos ev) s1
               in call_if_set tk (update_callback (view s2)) s2)
            else call_if_set tk (interaction_start_callback (view s)) s)
         else s)
      in super_mouseEvent tk MousePress ev s')"

definition mouseReleaseEvent :: "toolkit \<Rightarrow> qmouse_event \<Rightarrow> MainWindow \<Rightarrow> MainWindow" where
  "mouseReleaseEvent tk ev s =
     (let s' =
        (if me_button ev = LeftButton then
           (if tool (view s) \<in> {Erase, Paint} then
              (let s1 = call_if_set tk (update_callback (view s)) s
               in call_if_set tk (interaction_end_callback (view s1)) s1)
            else
              (let s1 = call_if_set tk (update_callback (view s)) s
               in call_if_set tk (interaction_end_callback (view s1)) s1))
         else s)
      in super_mouseEvent tk MouseRelease ev s')"

definition mouseMoveEvent :: "toolkit \<Rightarrow> qmouse_event \<Rightarrow> MainWindow \<Rightarrow> MainWindow" where
  "mouseMoveEvent tk ev s =
     (let s' =
        (if tool (view s) \<in> {Erase, Paint} \<and> LeftButton \<in> me_buttons ev then
           (let s1 = apply_brush tk (me_pos ev) s
            in call_if_set tk (update_callback (view s1)) s1)
         else s)
      in super_mouseEvent tk MouseMove ev s')"

subsection \<open>Opening an image\<close>

definition load_interactive_image :: "toolkit \<Rightarrow> qimage \<Rightarrow> MainWindow \<Rightarrow> MainWindow" where
  "load_interactive_image tk pixmap s =
     (let s1 = s\<lparr>items := (items s)(PixmapItem := pixmap), interactive_sceneRect := img_rect pixmap\<rparr>;
          s2 = set_view_geom tk (qt_fitInView tk (interactive_sceneRect s1) (geom (view s1))) s1;
          overlay_img = fill (QColor 0 0 0 255) (QImage_new tk (img_width pixmap) (img_height pixmap));
          s3 = s2\<lparr>items := (items s2)(OverlayItem := overlay_img)\<rparr>;
          s4 = s3\<lparr>view := set_overlay overlay_img OverlayItem (view s3)\<rparr>;
          s5 = s4\<lparr>items := (items s4)(PreviewItem := pixmap), preview_sceneRect := img_rect pixmap\<rparr>;
          s6 = s5\<lparr>preview_view := qt_setTransform tk (g_transform (geom (view s5))) (preview_view s5)\<rparr>;
          s7 = s6\<lparr>erase_btn := False, paint_btn := False\<rparr>;
          s8 = s7\<lparr>view := set_tool tk ToolNone (view s7)\<rparr>
      in update_mirror tk s8)"

definition load_static_image :: "toolkit \<Rightarrow> qimage \<Rightarrow> MainWindow \<Rightarrow> MainWindow" where
  "load_static_image tk pixmap s =
     (let s1 = s\<lparr>static_label := LabelText []\<rparr>;
          size = static_label_size s1;
          scaled = qt_scaled tk pixmap size;
          s2 = s1\<lparr>static_label := LabelPixmap scaled\<rparr>
      in s2\<lparr>static_mirror_window := set_image tk pixmap (static_mirror_window s2)\<rparr>)"

text \<open>
  \<open>path\<close> is what the file dialog returned, empty when it was cancelled;
  \<^verbatim>\<open>QPixmap(path)\<close> is the null pixmap when the file does not decode.
\<close>

definition on_open_image :: "toolkit \<Rightarrow> string \<Rightarrow> MainWindow \<Rightarrow> MainWindow" where
  "on_open_image tk path s =
     (if path = [] then s
      else
        (let pm = qt_load_pixmap tk path
         in if isNull pm then s
            else
              (let current_tab = tabs_currentIndex s
               in if current_tab = 0 then load_interactive_image tk pm s
                  else load_static_image tk pm s)))"

subsection \<open>Tool buttons and the brush slider\<close>

definition on_erase_clicked :: "toolkit \<Rightarrow> bool \<Rightarrow> MainWindow \<Rightarrow> MainWindow" where
  "on_erase_clicked tk checked s =
     (if checked then
        (let s1 = s\<lparr>paint_btn := False\<rparr>
         in s1\<lparr>view := set_tool tk Erase (view s1)\<rparr>)
      else if \<not> paint_btn s then s\<lparr>view := set_tool tk ToolNone (view s)\<rparr>
      else s)"

definition on_paint_clicked :: "toolkit \<Rightarrow> bool \<Rightarrow> MainWindow \<Rightarrow> MainWindow" where
  "on_paint_clicked tk checked s =
     (if checked then
        (let s1 = s\<lparr>erase_btn := False\<rparr>
         in s1\<lparr>view := set_tool tk Paint (view s1)\<rparr>)
      else if \<not> erase_btn s then s\<lparr>view := set_tool tk ToolNone (view s)\<rparr>
      else s)"

definition on_brush_slider_changed :: "toolkit \<Rightarrow> int \<Rightarrow> MainWindow \<Rightarrow> MainWindow" where
  "on_brush_slider_changed tk val s = s\<lparr>view := set_brush_radius tk val (view s)\<rparr>"

subsection \<open>Closing the main window\<close>

text \<open>
  \<^verbatim>\<open>MainWindow.closeEvent\<close> detaches and closes each mirror window, then accepts the
  event through the inherited handler.
\<close>

definition MainWindow_closeEvent :: "MainWindow \<Rightarrow> bool \<times> MainWindow" where
  "MainWindow_closeEvent s =
     (let s1 = s\<lparr>mirror_window := (mirror_window s)\<lparr>m_main_window := None\<rparr>\<rparr>;
          s2 = MirrorWindow_close s1;
          s3 = s2\<lparr>static_mirror_window := (static_mirror_window s2)\<lparr>sm_main_window := None\<rparr>\<rparr>;
          s4 = StaticMirrorWindow_close s3
      in (True, s4))"

definition MainWindow_close :: "MainWindow \<Rightarrow> MainWindow" where
  "MainWindow_close s =
     (case MainWindow_closeEvent s of (accepted, s') \<Rightarrow> if accepted then s'\<lparr>visible := False\<rparr> else s')"

section \<open>Start-up and the event loop\<close>

definition MyGraphicsView_init :: MyGraphicsView where
  "MyGraphicsView_init =
     \<lparr>geom = initial_geom, dragMode = ScrollHandDrag, cursor = ArrowCursor,
      interaction_start_callback = None, interaction_end_callback = None,
      update_callback = None, overlay_image = None, overlay_item = None,
      tool = ToolNone, brush_radius = 20\<rparr>"

definition MirrorWindow_init :: MirrorWindow where
  "MirrorWindow_init =
     \<lparr>m_main_window = Some MainWindowRef, m_label = LabelText ''Mirror content here.'',
      m_visible = False\<rparr>"

definition StaticMirrorWindow_init :: StaticMirrorWindow where
  "StaticMirrorWindow_init =
     \<lparr>sm_main_window = Some MainWindowRef, sm_label = LabelText [], sm_label_size = (100, 30),
      sm_original_pixmap = None, sm_visible = False\<rparr>"

text \<open>
  \<^verbatim>\<open>MainWindow.__init__\<close>: both mirror windows are shown, the slider is at 20, the timer
  is created stopped, the three callbacks of the view are wired. The sizes of the labels
  are those of widgets not yet laid out; the resize events below change them.
\<close>

definition MainWindow_init :: MainWindow where
  "MainWindow_init =
     \<lparr>visible = False, tabs_currentIndex = 0, items = (\<lambda>_. []),
      interactive_sceneRect = (0, 0, 0, 0), preview_sceneRect = (0, 0, 0, 0),
      view = set_interaction_callbacks On_interaction_start On_interaction_end Update_mirror
               MyGraphicsView_init,
      preview_view = initial_geom,
      static_label = LabelText ''No image loaded yet'', static_label_size = (100, 30),
      mirror_window = MirrorWindow_init\<lparr>m_visible := True\<rparr>,
      static_mirror_window = StaticMirrorWindow_init\<lparr>sm_visible := True\<rparr>,
      erase_btn = False, paint_btn = False, brush_slider = 20, interaction_timer = False\<rparr>"

text \<open>\<^verbatim>\<open>main()\<close>: the main window is constructed and shown, then the event loop runs.\<close>

definition main_start :: MainWindow where
  "main_start = MainWindow_init\<lparr>visible := True\<rparr>"

text \<open>
  What the event loop delivers. A click on a checkable button toggles it and emits
  \<^verbatim>\<open>clicked(checked)\<close>; the slider keeps its value in 1..200 and emits
  \<^verbatim>\<open>valueChanged\<close> when the value changes; the timer's \<^verbatim>\<open>timeout\<close> is connected to
  \<^verbatim>\<open>update_mirror\<close> and fires only while the timer is active. A resize event carries the
  size the layout gives the label of the resized window.
\<close>

datatype event =
    WheelEv qwheel_event
  | PressEv qmouse_event
  | ReleaseEv qmouse_event
  | MoveEv qmouse_event
  | EraseClick
  | PaintClick
  | SliderMove int
  | OpenImage string
  | SelectTab int
  | TimerTimeout
  | CloseMirror
  | CloseStaticMirror
  | CloseMain
  | ResizeMain "int \<times> int"
  | ResizeStaticMirror "int \<times> int"

definition step :: "toolkit \<Rightarrow> event \<Rightarrow> MainWindow \<Rightarrow> MainWindow" where
  "step tk e s =
     (case e of
        WheelEv ev \<Rightarrow> wheelEvent tk ev s
      | PressEv ev \<Rightarrow> mousePressEvent tk ev s
      | ReleaseEv ev \<Rightarrow> mouseReleaseEvent tk ev s
      | MoveEv ev \<Rightarrow> mouseMoveEvent tk ev s
      | EraseClick \<Rightarrow> (let checked = \<not> erase_btn s in on_erase_clicked tk checked (s\<lparr>erase_btn := checked\<rparr>))
      | PaintClick \<Rightarrow> (let checked = \<not> paint_btn s in on_paint_clicked tk checked (s\<lparr>paint_btn := checked\<rparr>))
      | SliderMove v \<Rightarrow>
          (let val = max 1 (min 200 v)
           in if val = brush_slider s then s
              else on_brush_slider_changed tk val (s\<lparr>brush_slider := val\<rparr>))
      | OpenImage path \<Rightarrow> on_open_image tk path s
      | SelectTab i \<Rightarrow> (if i = 0 \<or> i = 1 then s\<lparr>tabs_currentIndex := i\<rparr> else s)
      | TimerTimeout \<Rightarrow> (if interaction_timer s then update_mirror tk s else s)
      | CloseMirror \<Rightarrow> MirrorWindow_close s
      | CloseStaticMirror \<Rightarrow> StaticMirrorWindow_close s
      | CloseMain \<Rightarrow> MainWindow_close s
      | ResizeMain sz \<Rightarrow> s\<lparr>static_label_size := sz\<rparr>
      | ResizeStaticMirror sz \<Rightarrow>
          s\<lparr>static_mirror_window :=
               update_display tk ((static_mirror_window s)\<lparr>sm_label_size := sz\<rparr>)\<rparr>)"

primrec run :: "toolkit \<Rightarrow> event list \<Rightarrow> MainWindow \<Rightarrow> MainWindow" where
  "run tk [] s = s"
| "run tk (e # es) s = run tk es (step tk e s)"

text \<open>
  An interaction is the span from a press of the left button to its release: whether one
  is open after a sequence of events.
\<close>

definition track_interaction :: "bool \<Rightarrow> event \<Rightarrow> bool" where
  "track_interaction opened e =
     (case e of
        PressEv ev \<Rightarrow> (if me_button ev = LeftButton then True else opened)
      | ReleaseEv ev \<Rightarrow> (if me_button ev = LeftButton then False else opened)
      | _ \<Rightarrow> opened)"

definition interaction_open :: "event list \<Rightarrow> bool" where
  "interaction_open es = foldl track_interaction False es"

subsection \<open>A toolkit to run the model on\<close>

text \<open>
  Exact arithmetic, a view whose matrix only scales, a disc for the interior of an
  ellipse, a decoder that knows one file of 3 by 2 white pixels.
\<close>

definition sample_toolkit :: toolkit where
  "sample_toolkit =
     \<lparr>fl_round = (\<lambda>x. x),
      qt_uninitialized = (\<lambda>_ _. QColor 0 0 0 0),
      qt_image_too_large = (\<lambda>w h. 2 ^ 31 \<le> w * h * 4),
      qt_mapToScene = (\<lambda>g p. (of_int (fst p) / m11 (g_transform g), of_int (snd p) / m22 (g_transform g))),
      qt_item_mapFromScene = (\<lambda>_ p. p),
      qt_scale = (\<lambda>sx sy g. g\<lparr>g_transform := (g_transform g)\<lparr>m11 := m11 (g_transform g) * sx,
                                                                m22 := m22 (g_transform g) * sy\<rparr>\<rparr>),
      qt_translate = (\<lambda>dx dy g. g),
      qt_fitInView = (\<lambda>r g. g),
      qt_setTransform = (\<lambda>t g. g\<lparr>g_transform := t\<rparr>),
      qt_bar_setValue = (\<lambda>orient v g. g),
      qt_base_mouse = (\<lambda>phase mode ev g. (g_hbar g, g_vbar g)),
      qt_ellipse_fill = (\<lambda>(x, y, w, h) px py.
         (2 * (px - x) + 1 - w)\<^sup>2 + (2 * (py - y) + 1 - h)\<^sup>2 \<le> w\<^sup>2),
      qt_ellipse_outline = (\<lambda>r px py. False),
      qt_source_over = (\<lambda>src dst. src),
      qt_grab = (\<lambda>g its. its OverlayItem),
      qt_load_pixmap = (\<lambda>path. if path = ''map.png''
                                then replicate 2 (replicate 3 (QColor 255 255 255 255)) else []),
      qt_scaled = (\<lambda>pm sz. pm)\<rparr>"

text \<open>
  A session on that toolkit: the file is opened in the Interactive tab and the slider is
  moved to 1; then one erase stroke at view position (1, 1), then one paint stroke there.
\<close>

definition sample_loaded :: MainWindow where
  "sample_loaded = run sample_toolkit [OpenImage ''map.png'', SliderMove 1] main_start"

definition sample_erased :: MainWindow where
  "sample_erased =
     apply_brush sample_toolkit (1, 1)
       (sample_loaded\<lparr>view := set_tool sample_toolkit Erase (view sample_loaded)\<rparr>)"

definition sample_repainted :: MainWindow where
  "sample_repainted =
     apply_brush sample_toolkit (1, 1)
       (sample_erased\<lparr>view := set_tool sample_toolkit Paint (view sample_erased)\<rparr>)"

text \<open>
  A view at half scale with the erase tool and a brush radius of 3, and a session in which
  the wheel zooms out one notch before the slider is moved to 3 and Erase is clicked.
\<close>

definition sample_half_zoom_view :: MyGraphicsView where
  "sample_half_zoom_view =
     MyGraphicsView_init
       \<lparr>geom := initial_geom\<lparr>g_transform := identity_transform\<lparr>m11 := 1 / 2, m22 := 1 / 2\<rparr>\<rparr>,
        tool := Erase, brush_radius := 3\<rparr>"

definition sample_zoomed_out :: MainWindow where
  "sample_zoomed_out =
     run sample_toolkit
       [WheelEv \<lparr>we_point = (0, 0), we_angleDelta_y = - 120\<rparr>, SliderMove 3, EraseClick]
       main_start"

section \<open>QGraphicsView as Qt documents it\<close>

text \<open>
  \<^verbatim>\<open>QGraphicsView\<close> belongs to Qt, not to the program. The definitions of this section
  follow Qt's documentation of the class, so that the wheel handler can be run on the view
  it is written for.
\<close>

text \<open>
  The transformation anchor of a view. \<^verbatim>\<open>AnchorViewCenter\<close> is the default, and the program
  never sets another. (\<^verbatim>\<open>AnchorUnderMouse\<close> is not modelled.)
\<close>

datatype viewport_anchor = NoAnchor | AnchorViewCenter

text \<open>
  The view shows the scene point \<open>(x, y)\<close> at the viewport position
  \<open>(m11 x + m31 - g_hbar, m22 y + m32 - g_vbar)\<close>: the view matrix, then the scroll offset
  in whole pixels (the value of the scroll bar, less the indent that centres a scene
  smaller than the viewport). The inverse, for a matrix that scales and translates:
\<close>

definition view_to_scene :: "geom \<Rightarrow> real \<times> real \<Rightarrow> real \<times> real" where
  "view_to_scene g p =
     ((fst p + of_int (g_hbar g) - m31 (g_transform g)) / m11 (g_transform g),
      (snd p + of_int (g_vbar g) - m32 (g_transform g)) / m22 (g_transform g))"

text \<open>\<^verbatim>\<open>centerOn(q)\<close> scrolls so that the scene point \<open>q\<close> is at the centre of the viewport.\<close>

definition centerOn :: "int \<Rightarrow> int \<Rightarrow> real \<times> real \<Rightarrow> geom \<Rightarrow> geom" where
  "centerOn vw vh q g =
     g\<lparr>g_hbar := \<lfloor>m11 (g_transform g) * fst q + m31 (g_transform g) - of_int vw / 2\<rfloor>,
       g_vbar := \<lfloor>m22 (g_transform g) * snd q + m32 (g_transform g) - of_int vh / 2\<rfloor>\<rparr>"

text \<open>\<^verbatim>\<open>QTransform.scale\<close> and \<^verbatim>\<open>QTransform.translate\<close> act on the scene's side of the matrix.\<close>

definition transform_scale :: "real \<Rightarrow> real \<Rightarrow> qtransform \<Rightarrow> qtransform" where
  "transform_scale sx sy t =
     t\<lparr>m11 := m11 t * sx, m12 := m12 t * sx, m21 := m21 t * sy, m22 := m22 t * sy\<rparr>"

definition transform_translate :: "real \<Rightarrow> real \<Rightarrow> qtransform \<Rightarrow> qtransform" where
  "transform_translate dx dy t =
     t\<lparr>m31 := m31 t + dx * m11 t + dy * m21 t, m32 := m32 t + dy * m22 t + dx * m12 t\<rparr>"

text \<open>
  Every change of the view matrix (\<^verbatim>\<open>setTransform\<close>, and \<^verbatim>\<open>scale\<close> and \<^verbatim>\<open>translate\<close>
  through it) repositions the view by the anchor: with \<^verbatim>\<open>AnchorViewCenter\<close> ``the scene
  point at the center of the view remains unchanged during transformations'', with
  \<^verbatim>\<open>NoAnchor\<close> ``the view leaves the scene's position unchanged''.
\<close>

definition setTransform_anchored ::
  "viewport_anchor \<Rightarrow> int \<Rightarrow> int \<Rightarrow> qtransform \<Rightarrow> geom \<Rightarrow> geom" where
  "setTransform_anchored anchor vw vh t g =
     (case anchor of
        NoAnchor \<Rightarrow> g\<lparr>g_transform := t\<rparr>
      | AnchorViewCenter \<Rightarrow>
          centerOn vw vh (view_to_scene g (of_int vw / 2, of_int vh / 2)) (g\<lparr>g_transform := t\<rparr>))"

text \<open>
  \<^verbatim>\<open>fitInView(rect, Qt.KeepAspectRatio)\<close> scales the matrix by one factor so that \<open>rect\<close>
  fits in the viewport, less a margin of 2 pixels on each side, and centres the view on it.
\<close>

definition fitInView_keep_aspect :: "int \<Rightarrow> int \<Rightarrow> qrect \<Rightarrow> geom \<Rightarrow> geom" where
  "fitInView_keep_aspect vw vh rect g =
     (case rect of
        (x, y, w, h) \<Rightarrow>
          if w \<le> 0 \<or> h \<le> 0 then g
          else
            (let ratio = min (of_int (vw - 4) / of_int w) (of_int (vh - 4) / of_int h);
                 t = (g_transform g)\<lparr>m11 := ratio, m12 := 0, m21 := 0, m22 := ratio\<rparr>
             in centerOn vw vh (of_int x + of_int w / 2, of_int y + of_int h / 2)
                  (g\<lparr>g_transform := t\<rparr>)))"

text \<open>
  The toolkit of a view with the given anchor and a viewport of \<open>vw\<close> by \<open>vh\<close> pixels.
  Arithmetic is exact and scroll ranges are not clamped; the decoder also knows a file of
  1000 by 600 pixels.
\<close>

definition qgraphicsview_toolkit :: "viewport_anchor \<Rightarrow> int \<Rightarrow> int \<Rightarrow> toolkit" where
  "qgraphicsview_toolkit anchor vw vh =
     sample_toolkit
       \<lparr>qt_mapToScene := (\<lambda>g p. view_to_scene g (of_int (fst p), of_int (snd p))),
        qt_scale := (\<lambda>sx sy g.
           setTransform_anchored anchor vw vh (transform_scale sx sy (g_transform g)) g),
        qt_translate := (\<lambda>dx dy g.
           setTransform_anchored anchor vw vh (transform_translate dx dy (g_transform g)) g),
        qt_fitInView := fitInView_keep_aspect vw vh,
        qt_setTransform := setTransform_anchored anchor vw vh,
        qt_bar_setValue := (\<lambda>orient v g.
           case orient of Horizontal \<Rightarrow> g\<lparr>g_hbar := v\<rparr> | Vertical \<Rightarrow> g\<lparr>g_vbar := v\<rparr>),
        qt_load_pixmap := (\<lambda>path. if path = ''large.png''
                                  then replicate 600 (replicate 1000 (QColor 255 255 255 255))
                                  else qt_load_pixmap sample_toolkit path)\<rparr>"

text \<open>
  A session on it: the large file is opened in a viewport of 504 by 304 pixels, which fits
  it at half scale; then the wheel turns one notch in with the pointer at (52, 52).
\<close>

definition sample_fitted :: MainWindow where
  "sample_fitted = run (qgraphicsview_toolkit AnchorViewCenter 504 304) [OpenImage ''large.png''] main_start"

definition sample_wheel_in :: qwheel_event where
  "sample_wheel_in = \<lparr>we_point = (52, 52), we_angleDelta_y = 120\<rparr>"

text \<open>
  The anchor of a wheel zoom: the scene point under the pointer after the event is the one
  that was under it before.
\<close>

definition anchor_kept :: "toolkit \<Rightarrow> qwheel_event \<Rightarrow> MainWindow \<Rightarrow> bool" where
  "anchor_kept tk ev s =
     (qt_mapToScene tk (geom (view (wheelEvent tk ev s))) (we_point ev) =
      qt_mapToScene tk (geom (view s)) (we_point ev))"

section \<open>Invariants of the event loop\<close>

text \<open>
  Whenever a brush tool is selected, the cursor is the one \<^verbatim>\<open>update_cursor\<close> installs for
  the current brush radius and zoom.
\<close>

definition installed_cursor :: "toolkit \<Rightarrow> int \<Rightarrow> qtransform \<Rightarrow> qcursor" where
  "installed_cursor tk r tr =
     (if isNull (cursor_image tk (screen_radius tk r tr)) then ArrowCursor
      else brush_cursor (screen_radius tk r tr))"

definition cursor_current :: "toolkit \<Rightarrow> MyGraphicsView \<Rightarrow> bool" where
  "cursor_current tk v =
     (tool v = ToolNone \<or>
      cursor v = installed_cursor tk (brush_radius v) (g_transform (geom v)))"

text \<open>The three callbacks of the view are the bound methods wired at start-up.\<close>

definition wired :: "MyGraphicsView \<Rightarrow> bool" where
  "wired v =
     (interaction_start_callback v = Some On_interaction_start \<and>
      interaction_end_callback v = Some On_interaction_end \<and>
      update_callback v = Some Update_mirror)"

text \<open>The tool of the view is the one the two toggle buttons show.\<close>

definition buttons_agree :: "MainWindow \<Rightarrow> bool" where
  "buttons_agree s =
     (\<not> (erase_btn s \<and> paint_btn s) \<and>
      tool (view s) = (if erase_btn s then Erase else if paint_btn s then Paint else ToolNone))"

text \<open>Both mirror windows are shown and still refer to a visible main window.\<close>

definition attached :: "MainWindow \<Rightarrow> bool" where
  "attached s =
     (visible s \<and> m_main_window (mirror_window s) = Some MainWindowRef \<and>
      sm_main_window (static_mirror_window s) = Some MainWindowRef \<and>
      m_visible (mirror_window s) \<and> sm_visible (static_mirror_window s))"

section \<open>What each operation leaves unchanged\<close>

lemma sync_preview_transform_frame [simp]:
  "view (sync_preview_transform tk s) = view s"
  "interaction_timer (sync_preview_transform tk s) = interaction_timer s"
  "erase_btn (sync_preview_transform tk s) = erase_btn s"
  "paint_btn (sync_preview_transform tk s) = paint_btn s"
  "brush_slider (sync_preview_transform tk s) = brush_slider s"
  "visible (sync_preview_transform tk s) = visible s"
  "items (sync_preview_transform tk s) = items s"
  "tabs_currentIndex (sync_preview_transform tk s) = tabs_currentIndex s"
  "mirror_window (sync_preview_transform tk s) = mirror_window s"
  "static_mirror_window (sync_preview_transform tk s) = static_mirror_window s"
  by (simp_all add: sync_preview_transform_def Let_def)

lemma set_view_geom_frame [simp]:
  "view (set_view_geom tk g s) = (view s)\<lparr>geom := g\<rparr>"
  "interaction_timer (set_view_geom tk g s) = interaction_timer s"
  "erase_btn (set_view_geom tk g s) = erase_btn s"
  "paint_btn (set_view_geom tk g s) = paint_btn s"
  "brush_slider (set_view_geom tk g s) = brush_slider s"
  "visible (set_view_geom tk g s) = visible s"
  "items (set_view_geom tk g s) = items s"
  "tabs_currentIndex (set_view_geom tk g s) = tabs_currentIndex s"
  "mirror_window (set_view_geom tk g s) = mirror_window s"
  "static_mirror_window (set_view_geom tk g s) = static_mirror_window s"
  by (simp_all add: set_view_geom_def Let_def)

lemma update_cursor_frame [simp]:
  "tool (update_cursor tk v) = tool v"
  "brush_radius (update_cursor tk v) = brush_radius v"
  "geom (update_cursor tk v) = geom v"
  "dragMode (update_cursor tk v) = dragMode v"
  "overlay_image (update_cursor tk v) = overlay_image v"
  "overlay_item (update_cursor tk v) = overlay_item v"
  "interaction_start_callback (update_cursor tk v) = interaction_start_callback v"
  "interaction_end_callback (update_cursor tk v) = interaction_end_callback v"
  "update_callback (update_cursor tk v) = update_callback v"
  by (simp_all add: update_cursor_def Let_def)

lemma set_tool_frame [simp]:
  "tool (set_tool tk t v) = t"
  "brush_radius (set_tool tk t v) = brush_radius v"
  "geom (set_tool tk t v) = geom v"
  "overlay_image (set_tool tk t v) = overlay_image v"
  "overlay_item (set_tool tk t v) = overlay_item v"
  "interaction_start_callback (set_tool tk t v) = interaction_start_callback v"
  "interaction_end_callback (set_tool tk t v) = interaction_end_callback v"
  "update_callback (set_tool tk t v) = update_callback v"
  by (simp_all add: set_tool_def Let_def)

lemma set_brush_radius_frame [simp]:
  "tool (set_brush_radius tk r v) = tool v"
  "brush_radius (set_brush_radius tk r v) = r"
  "geom (set_brush_radius tk r v) = geom v"
  "overlay_image (set_brush_radius tk r v) = overlay_image v"
  "overlay_item (set_brush_radius tk r v) = overlay_item v"
  "interaction_start_callback (set_brush_radius tk r v) = interaction_start_callback v"
  "interaction_end_callback (set_brush_radius tk r v) = interaction_end_callback v"
  "update_callback (set_brush_radius tk r v) = update_callback v"
  by (simp_all add: set_brush_radius_def Let_def)

lemma update_mirror_frame [simp]:
  "view (update_mirror tk s) =
     (if tool (view s) \<in> {Erase, Paint} then update_cursor tk (view s) else view s)"
  "interaction_timer (update_mirror tk s) = interaction_timer s"
  "erase_btn (update_mirror tk s) = erase_btn s"
  "paint_btn (update_mirror tk s) = paint_btn s"
  "brush_slider (update_mirror tk s) = brush_slider s"
  "visible (update_mirror tk s) = visible s"
  "items (update_mirror tk s) = items s"
  "tabs_currentIndex (update_mirror tk s) = tabs_currentIndex s"
  "m_main_window (mirror_window (update_mirror tk s)) = m_main_window (mirror_window s)"
  "m_visible (mirror_window (update_mirror tk s)) = m_visible (mirror_window s)"
  "static_mirror_window (update_mirror tk s) = static_mirror_window s"
  by (simp_all add: update_mirror_def set_mirror_pixmap_def Let_def)

lemma apply_brush_frame [simp]:
  "tool (view (apply_brush tk p s)) = tool (view s)"
  "brush_radius (view (apply_brush tk p s)) = brush_radius (view s)"
  "geom (view (apply_brush tk p s)) = geom (view s)"
  "cursor (view (apply_brush tk p s)) = cursor (view s)"
  "dragMode (view (apply_brush tk p s)) = dragMode (view s)"
  "overlay_item (view (apply_brush tk p s)) = overlay_item (view s)"
  "interaction_start_callback (view (apply_brush tk p s)) = interaction_start_callback (view s)"
  "interaction_end_callback (view (apply_brush tk p s)) = interaction_end_callback (view s)"
  "update_callback (view (apply_brush tk p s)) = update_callback (view s)"
  "interaction_timer (apply_brush tk p s) = interaction_timer s"
  "erase_btn (apply_brush tk p s) = erase_btn s"
  "paint_btn (apply_brush tk p s) = paint_btn s"
  "brush_slider (apply_brush tk p s) = brush_slider s"
  "visible (apply_brush tk p s) = visible s"
  "tabs_currentIndex (apply_brush tk p s) = tabs_currentIndex s"
  "mirror_window (apply_brush tk p s) = mirror_window s"
  "static_mirror_window (apply_brush tk p s) = static_mirror_window s"
  by (simp_all add: apply_brush_def Let_def split: option.splits prod.splits)

lemma super_mouseEvent_frame [simp]:
  "tool (view (super_mouseEvent tk ph ev s)) = tool (view s)"
  "brush_radius (view (super_mouseEvent tk ph ev s)) = brush_radius (view s)"
  "g_transform (geom (view (super_mouseEvent tk ph ev s))) = g_transform (geom (view s))"
  "cursor (view (super_mouseEvent tk ph ev s)) = cursor (view s)"
  "overlay_image (view (super_mouseEvent tk ph ev s)) = overlay_image (view s)"
  "overlay_item (view (super_mouseEvent tk ph ev s)) = overlay_item (view s)"
  "interaction_start_callback (view (super_mouseEvent tk ph ev s)) = interaction_start_callback (view s)"
  "interaction_end_callback (view (super_mouseEvent tk ph ev s)) = interaction_end_callback (view s)"
  "update_callback (view (super_mouseEvent tk ph ev s)) = update_callback (view s)"
  "interaction_timer (super_mouseEvent tk ph ev s) = interaction_timer s"
  "erase_btn (super_mouseEvent tk ph ev s) = erase_btn s"
  "paint_btn (super_mouseEvent tk ph ev s) = paint_btn s"
  "brush_slider (super_mouseEvent tk ph ev s) = brush_slider s"
  "visible (super_mouseEvent tk ph ev s) = visible s"
  "items (super_mouseEvent tk ph ev s) = items s"
  "tabs_currentIndex (super_mouseEvent tk ph ev s) = tabs_currentIndex s"
  "mirror_window (super_mouseEvent tk ph ev s) = mirror_window s"
  "static_mirror_window (super_mouseEvent tk ph ev s) = static_mirror_window s"
  by (simp_all add: super_mouseEvent_def Let_def)


lemma invoke_frame [simp]:
  "tool (view (invoke tk cb s)) = tool (view s)"
  "brush_radius (view (invoke tk cb s)) = brush_radius (view s)"
  "geom (view (invoke tk cb s)) = geom (view s)"
  "dragMode (view (invoke tk cb s)) = dragMode (view s)"
  "overlay_image (view (invoke tk cb s)) = overlay_image (view s)"
  "overlay_item (view (invoke tk cb s)) = overlay_item (view s)"
  "interaction_start_callback (view (invoke tk cb s)) = interaction_start_callback (view s)"
  "interaction_end_callback (view (invoke tk cb s)) = interaction_end_callback (view s)"
  "update_callback (view (invoke tk cb s)) = update_callback (view s)"
  "erase_btn (invoke tk cb s) = erase_btn s"
  "paint_btn (invoke tk cb s) = paint_btn s"
  "brush_slider (invoke tk cb s) = brush_slider s"
  "visible (invoke tk cb s) = visible s"
  "items (invoke tk cb s) = items s"
  "tabs_currentIndex (invoke tk cb s) = tabs_currentIndex s"
  "m_main_window (mirror_window (invoke tk cb s)) = m_main_window (mirror_window s)"
  "m_visible (mirror_window (invoke tk cb s)) = m_visible (mirror_window s)"
  "static_mirror_window (invoke tk cb s) = static_mirror_window s"
  by (cases cb; simp add: invoke_def on_interaction_start_def on_interaction_end_def)+

lemma call_if_set_frame [simp]:
  "tool (view (call_if_set tk cbo s)) = tool (view s)"
  "brush_radius (view (call_if_set tk cbo s)) = brush_radius (view s)"
  "geom (view (call_if_set tk cbo s)) = geom (view s)"
  "dragMode (view (call_if_set tk cbo s)) = dragMode (view s)"
  "overlay_image (view (call_if_set tk cbo s)) = overlay_image (view s)"
  "overlay_item (view (call_if_set tk cbo s)) = overlay_item (view s)"
  "interaction_start_callback (view (call_if_set tk cbo s)) = interaction_start_callback (view s)"
  "interaction_end_callback (view (call_if_set tk cbo s)) = interaction_end_callback (view s)"
  "update_callback (view (call_if_set tk cbo s)) = update_callback (view s)"
  "erase_btn (call_if_set tk cbo s) = erase_btn s"
  "paint_btn (call_if_set tk cbo s) = paint_btn s"
  "brush_slider (call_if_set tk cbo s) = brush_slider s"
  "visible (call_if_set tk cbo s) = visible s"
  "items (call_if_set tk cbo s) = items s"
  "tabs_currentIndex (call_if_set tk cbo s) = tabs_currentIndex s"
  "m_main_window (mirror_window (call_if_set tk cbo s)) = m_main_window (mirror_window s)"
  "m_visible (mirror_window (call_if_set tk cbo s)) = m_visible (mirror_window s)"
  "static_mirror_window (call_if_set tk cbo s) = static_mirror_window s"
  by (cases cbo; simp add: call_if_set_def)+

lemma call_if_set_timer [simp]:
  "interaction_timer (call_if_set tk (Some On_interaction_start) s)"
  "\<not> interaction_timer (call_if_set tk (Some On_interaction_end) s)"
  "interaction_timer (call_if_set tk (Some Update_mirror) s) = interaction_timer s"
  by (simp_all add: call_if_set_def invoke_def on_interaction_start_def on_interaction_end_def)

lemma cursor_current_update_cursor [simp]: "cursor_current tk (update_cursor tk v)"
  by (cases "tool v") (simp_all add: cursor_current_def update_cursor_def installed_cursor_def Let_def)

lemma cursor_current_set_tool [simp]: "cursor_current tk (set_tool tk t v)"
  by (cases t) (simp_all add: set_tool_def Let_def, simp add: cursor_current_def)

lemma cursor_current_set_brush_radius:
  "cursor_current tk v \<Longrightarrow> cursor_current tk (set_brush_radius tk r v)"
  by (cases "tool v") (simp_all add: set_brush_radius_def Let_def, simp add: cursor_current_def)

lemma cursor_current_cong:
  "cursor_current tk v \<Longrightarrow> tool v' = tool v \<Longrightarrow> cursor v' = cursor v \<Longrightarrow>
   brush_radius v' = brush_radius v \<Longrightarrow> g_transform (geom v') = g_transform (geom v) \<Longrightarrow>
   cursor_current tk v'"
  by (simp add: cursor_current_def)

lemma cursor_current_invoke:
  "cursor_current tk (view s) \<Longrightarrow> cursor_current tk (view (invoke tk cb s))"
  by (cases cb) (simp_all add: invoke_def on_interaction_start_def on_interaction_end_def)

lemma cursor_current_call_if_set:
  "cursor_current tk (view s) \<Longrightarrow> cursor_current tk (view (call_if_set tk cbo s))"
  by (cases cbo) (simp_all add: call_if_set_def cursor_current_invoke)

lemma cursor_current_apply_brush:
  "cursor_current tk (view s) \<Longrightarrow> cursor_current tk (view (apply_brush tk p s))"
  by (erule cursor_current_cong) simp_all

lemma cursor_current_super:
  "cursor_current tk (view s) \<Longrightarrow> cursor_current tk (view (super_mouseEvent tk ph ev s))"
  by (erule cursor_current_cong) simp_all

lemma wheelEvent_brush: "tool (view s) \<noteq> ToolNone \<Longrightarrow> wheelEvent tk ev s = s"
  by (simp add: wheelEvent_def)

lemma wheelEvent_tool [simp]: "tool (view (wheelEvent tk ev s)) = tool (view s)"
  by (simp add: wheelEvent_def Let_def)

lemma cursor_current_wheelEvent:
  "cursor_current tk (view s) \<Longrightarrow> cursor_current tk (view (wheelEvent tk ev s))"
  by (cases "tool (view s) = ToolNone") (simp_all add: wheelEvent_brush, simp add: cursor_current_def)

lemma cursor_current_mousePressEvent:
  "cursor_current tk (view s) \<Longrightarrow> cursor_current tk (view (mousePressEvent tk ev s))"
  by (simp add: mousePressEvent_def Let_def cursor_current_super cursor_current_call_if_set
        cursor_current_apply_brush)

lemma cursor_current_mouseReleaseEvent:
  "cursor_current tk (view s) \<Longrightarrow> cursor_current tk (view (mouseReleaseEvent tk ev s))"
  by (simp add: mouseReleaseEvent_def Let_def cursor_current_super cursor_current_call_if_set)

lemma cursor_current_mouseMoveEvent:
  "cursor_current tk (view s) \<Longrightarrow> cursor_current tk (view (mouseMoveEvent tk ev s))"
  by (simp add: mouseMoveEvent_def Let_def cursor_current_super cursor_current_call_if_set
        cursor_current_apply_brush)


lemma update_display_frame [simp]:
  "sm_main_window (update_display tk w) = sm_main_window w"
  "sm_visible (update_display tk w) = sm_visible w"
  "sm_main_window (set_image tk pm w) = sm_main_window w"
  "sm_visible (set_image tk pm w) = sm_visible w"
  by (simp_all add: update_display_def set_image_def split: option.splits)

lemma load_interactive_image_frame [simp]:
  "tool (view (load_interactive_image tk pm s)) = ToolNone"
  "brush_radius (view (load_interactive_image tk pm s)) = brush_radius (view s)"
  "overlay_image (view (load_interactive_image tk pm s)) =
     Some (fill (QColor 0 0 0 255) (QImage_new tk (img_width pm) (img_height pm)))"
  "overlay_item (view (load_interactive_image tk pm s)) = Some OverlayItem"
  "interaction_start_callback (view (load_interactive_image tk pm s)) = interaction_start_callback (view s)"
  "interaction_end_callback (view (load_interactive_image tk pm s)) = interaction_end_callback (view s)"
  "update_callback (view (load_interactive_image tk pm s)) = update_callback (view s)"
  "erase_btn (load_interactive_image tk pm s) = False"
  "paint_btn (load_interactive_image tk pm s) = False"
  "brush_slider (load_interactive_image tk pm s) = brush_slider s"
  "interaction_timer (load_interactive_image tk pm s) = interaction_timer s"
  "visible (load_interactive_image tk pm s) = visible s"
  "tabs_currentIndex (load_interactive_image tk pm s) = tabs_currentIndex s"
  "m_main_window (mirror_window (load_interactive_image tk pm s)) = m_main_window (mirror_window s)"
  "m_visible (mirror_window (load_interactive_image tk pm s)) = m_visible (mirror_window s)"
  "static_mirror_window (load_interactive_image tk pm s) = static_mirror_window s"
  by (simp_all add: load_interactive_image_def Let_def set_overlay_def)

lemma load_static_image_frame [simp]:
  "view (load_static_image tk pm s) = view s"
  "erase_btn (load_static_image tk pm s) = erase_btn s"
  "paint_btn (load_static_image tk pm s) = paint_btn s"
  "brush_slider (load_static_image tk pm s) = brush_slider s"
  "interaction_timer (load_static_image tk pm s) = interaction_timer s"
  "visible (load_static_image tk pm s) = visible s"
  "items (load_static_image tk pm s) = items s"
  "tabs_currentIndex (load_static_image tk pm s) = tabs_currentIndex s"
  "mirror_window (load_static_image tk pm s) = mirror_window s"
  "sm_main_window (static_mirror_window (load_static_image tk pm s)) = sm_main_window (static_mirror_window s)"
  "sm_visible (static_mirror_window (load_static_image tk pm s)) = sm_visible (static_mirror_window s)"
  by (simp_all add: load_static_image_def Let_def)

lemma wired_step: "wired (view s) \<Longrightarrow> wired (view (step tk e s))"
  by (cases e)
     (simp_all add: step_def wired_def wheelEvent_def mousePressEvent_def mouseReleaseEvent_def
        mouseMoveEvent_def on_open_image_def on_erase_clicked_def on_paint_clicked_def
        on_brush_slider_changed_def MirrorWindow_close_def StaticMirrorWindow_close_def
        MainWindow_close_def MainWindow_closeEvent_def Let_def)

lemma buttons_agree_step: "buttons_agree s \<Longrightarrow> buttons_agree (step tk e s)"
  by (cases e)
     (auto simp add: step_def buttons_agree_def wheelEvent_def mousePressEvent_def mouseReleaseEvent_def
        mouseMoveEvent_def on_open_image_def on_erase_clicked_def on_paint_clicked_def
        on_brush_slider_changed_def MirrorWindow_close_def StaticMirrorWindow_close_def
        MainWindow_close_def MainWindow_closeEvent_def Let_def)

lemma attached_step: "attached s \<Longrightarrow> e \<noteq> CloseMain \<Longrightarrow> attached (step tk e s)"
  by (cases e)
     (simp_all add: step_def attached_def wheelEvent_def mousePressEvent_def mouseReleaseEvent_def
        mouseMoveEvent_def on_open_image_def on_erase_clicked_def on_paint_clicked_def
        on_brush_slider_changed_def MirrorWindow_close_def StaticMirrorWindow_close_def
        MirrorWindow_closeEvent_def StaticMirrorWindow_closeEvent_def Let_def)


lemma cursor_current_step: "cursor_current tk (view s) \<Longrightarrow> cursor_current tk (view (step tk e s))"
proof (cases e)
  case (WheelEv ev)
  assume "cursor_current tk (view s)"
  with WheelEv show ?thesis by (simp add: step_def cursor_current_wheelEvent)
next
  case (PressEv ev)
  assume "cursor_current tk (view s)"
  with PressEv show ?thesis by (simp add: step_def cursor_current_mousePressEvent)
next
  case (ReleaseEv ev)
  assume "cursor_current tk (view s)"
  with ReleaseEv show ?thesis by (simp add: step_def cursor_current_mouseReleaseEvent)
next
  case (MoveEv ev)
  assume "cursor_current tk (view s)"
  with MoveEv show ?thesis by (simp add: step_def cursor_current_mouseMoveEvent)
next
  case EraseClick
  assume "cursor_current tk (view s)"
  with EraseClick show ?thesis
    by (simp add: step_def on_erase_clicked_def Let_def)
next
  case PaintClick
  assume "cursor_current tk (view s)"
  with PaintClick show ?thesis
    by (simp add: step_def on_paint_clicked_def Let_def)
next
  case (SliderMove v)
  assume "cursor_current tk (view s)"
  with SliderMove show ?thesis
    by (auto simp add: step_def on_brush_slider_changed_def Let_def
          intro: cursor_current_set_brush_radius)
next
  case (OpenImage path)
  assume "cursor_current tk (view s)"
  with OpenImage show ?thesis
    by (auto simp add: step_def on_open_image_def Let_def cursor_current_def)
next
  case TimerTimeout
  assume "cursor_current tk (view s)"
  with TimerTimeout show ?thesis by (simp add: step_def)
qed (simp_all add: step_def MirrorWindow_close_def StaticMirrorWindow_close_def
       MainWindow_close_def MainWindow_closeEvent_def Let_def cursor_current_def)

section \<open>Reachable states\<close>

lemma wired_main_start [simp]: "wired (view main_start)"
  by (simp add: wired_def main_start_def MainWindow_init_def set_interaction_callbacks_def
        MyGraphicsView_init_def)

lemma buttons_agree_main_start [simp]: "buttons_agree main_start"
  by (simp add: buttons_agree_def main_start_def MainWindow_init_def set_interaction_callbacks_def
        MyGraphicsView_init_def)

lemma attached_main_start [simp]: "attached main_start"
  by (simp add: attached_def main_start_def MainWindow_init_def MirrorWindow_init_def
        StaticMirrorWindow_init_def)

lemma cursor_current_main_start [simp]: "cursor_current tk (view main_start)"
  by (simp add: cursor_current_def main_start_def MainWindow_init_def set_interaction_callbacks_def
        MyGraphicsView_init_def)

lemma wired_run: "wired (view s) \<Longrightarrow> wired (view (run tk es s))"
  by (induction es arbitrary: s) (simp_all add: wired_step)

lemma buttons_agree_run: "buttons_agree s \<Longrightarrow> buttons_agree (run tk es s)"
  by (induction es arbitrary: s) (simp_all add: buttons_agree_step)

lemma cursor_current_run: "cursor_current tk (view s) \<Longrightarrow> cursor_current tk (view (run tk es s))"
  by (induction es arbitrary: s) (simp_all add: cursor_current_step)

lemma attached_run: "attached s \<Longrightarrow> CloseMain \<notin> set es \<Longrightarrow> attached (run tk es s)"
  by (induction es arbitrary: s) (auto simp add: attached_step)

lemma press_starts_timer:
  "wired (view s) \<Longrightarrow> me_button ev = LeftButton \<Longrightarrow> interaction_timer (step tk (PressEv ev) s)"
  by (simp add: step_def mousePressEvent_def wired_def Let_def)

lemma release_stops_timer:
  "wired (view s) \<Longrightarrow> me_button ev = LeftButton \<Longrightarrow> \<not> interaction_timer (step tk (ReleaseEv ev) s)"
  by (simp add: step_def mouseReleaseEvent_def wired_def Let_def)

lemma step_timer_no_wheel:
  "wired (view s) \<Longrightarrow> (\<forall>ev. e \<noteq> WheelEv ev) \<Longrightarrow>
   interaction_timer (step tk e s) = track_interaction (interaction_timer s) e"
  by (cases e)
     (simp_all add: step_def track_interaction_def mousePressEvent_def mouseReleaseEvent_def
        mouseMoveEvent_def on_open_image_def on_erase_clicked_def on_paint_clicked_def
        on_brush_slider_changed_def MirrorWindow_close_def StaticMirrorWindow_close_def
        MainWindow_close_def MainWindow_closeEvent_def wired_def Let_def)

lemma run_timer_no_wheel:
  "wired (view s) \<Longrightarrow> (\<forall>ev. WheelEv ev \<notin> set es) \<Longrightarrow>
   interaction_timer (run tk es s) = foldl track_interaction (interaction_timer s) es"
proof (induction es arbitrary: s)
  case Nil
  then show ?case by simp
next
  case (Cons e es)
  have "wired (view (step tk e s))" using Cons.prems(1) by (rule wired_step)
  moreover have "\<forall>ev. WheelEv ev \<notin> set es" using Cons.prems(2) by simp
  ultimately have "interaction_timer (run tk es (step tk e s)) =
      foldl track_interaction (interaction_timer (step tk e s)) es"
    by (rule Cons.IH)
  moreover have "interaction_timer (step tk e s) = track_interaction (interaction_timer s) e"
    using Cons.prems by (intro step_timer_no_wheel) auto
  ultimately show ?case by simp
qed

section \<open>The mirror-refresh timer\<close>

text \<open>
  Claim C1: the mirror-refresh timer is active if and only if an interaction (a span from a
  press of the left button to its release) is open. The code does not keep this: a wheel
  event with no tool selected calls the interaction-start callback, which starts the
  timer, and nothing in \<^verbatim>\<open>wheelEvent\<close> stops it. Right after start-up, one wheel event
  leaves the timer running although no interaction is open. (Without wheel events the
  timer does follow the interaction: \<open>run_timer_no_wheel\<close>.)
\<close>

theorem wheel_leaves_timer_running:
  "interaction_timer (run tk [WheelEv ev] main_start) \<and> \<not> interaction_open [WheelEv ev]"
  by (simp add: step_def wheelEvent_def Let_def interaction_open_def track_interaction_def)
     (simp add: main_start_def MainWindow_init_def set_interaction_callbacks_def
        MyGraphicsView_init_def)

section \<open>Opening an image\<close>

text \<open>
  Claim C8: when the file dialog is cancelled (empty path) or the selected file does not
  decode (null pixmap), opening an image changes nothing: the whole state of the program
  after \<^verbatim>\<open>on_open_image\<close> is the state before it, and the function has no error path.
\<close>

theorem open_image_aborts_silently:
  "path = [] \<or> isNull (qt_load_pixmap tk path) \<Longrightarrow> on_open_image tk path s = s"
  by (auto simp add: on_open_image_def Let_def)

theorem open_image_aborts_silently_witness:
  "on_open_image sample_toolkit [] main_start = main_start \<and>
   isNull (qt_load_pixmap sample_toolkit ''missing.png'') \<and>
   on_open_image sample_toolkit ''missing.png'' main_start = main_start"
proof -
  have null: "isNull (qt_load_pixmap sample_toolkit ''missing.png'')"
    by (simp add: sample_toolkit_def isNull_def img_width_def)
  have "on_open_image sample_toolkit [] main_start = main_start"
    using open_image_aborts_silently [of "[]" sample_toolkit main_start] by simp
  moreover have "on_open_image sample_toolkit ''missing.png'' main_start = main_start"
    using open_image_aborts_silently [of "''missing.png''" sample_toolkit main_start] null by simp
  ultimately show ?thesis using null by simp
qed

lemma step_overlay_none:
  "overlay_image (view s) = None \<Longrightarrow> (\<forall>path. e \<noteq> OpenImage path) \<Longrightarrow>
   overlay_image (view (step tk e s)) = None"
  by (cases e)
     (simp_all add: step_def wheelEvent_def mousePressEvent_def mouseReleaseEvent_def
        mouseMoveEvent_def on_erase_clicked_def on_paint_clicked_def
        on_brush_slider_changed_def MirrorWindow_close_def StaticMirrorWindow_close_def
        MainWindow_close_def MainWindow_closeEvent_def Let_def apply_brush_def)

lemma run_overlay_none:
  "overlay_image (view s) = None \<Longrightarrow> (\<forall>path. OpenImage path \<notin> set es) \<Longrightarrow>
   overlay_image (view (run tk es s)) = None"
proof (induction es arbitrary: s)
  case Nil
  then show ?case by simp
next
  case (Cons e es)
  have "\<forall>path. e \<noteq> OpenImage path" using Cons.prems(2) by auto
  with Cons.prems(1) have "overlay_image (view (step tk e s)) = None"
    by (rule step_overlay_none)
  moreover have "\<forall>path. OpenImage path \<notin> set es" using Cons.prems(2) by simp
  ultimately have "overlay_image (view (run tk es (step tk e s))) = None"
    by (rule Cons.IH)
  then show ?case by simp
qed

lemma overlay_none_main_start [simp]: "overlay_image (view main_start) = None"
  by (simp add: main_start_def MainWindow_init_def set_interaction_callbacks_def
        MyGraphicsView_init_def)

section \<open>Brush strokes before any image is loaded\<close>

text \<open>
  Claim C10: a brush stroke that comes before any image has been loaded into the
  Interactive tab (no overlay bitmap set) is a no-op: \<^verbatim>\<open>apply_brush\<close> returns the state it
  was given, and it has no error path. The overlay is unset at start-up and stays unset
  as long as no image is opened.
\<close>

theorem apply_brush_without_overlay:
  "(overlay_image (view s) = None \<longrightarrow> apply_brush tk view_pos s = s) \<and>
   ((\<forall>path. OpenImage path \<notin> set es) \<longrightarrow>
      apply_brush tk view_pos (run tk es main_start) = run tk es main_start)"
proof -
  have a: "apply_brush tk view_pos s' = s'" if "overlay_image (view s') = None" for s'
    using that by (simp add: apply_brush_def)
  have "overlay_image (view (run tk es main_start)) = None"
    if "\<forall>path. OpenImage path \<notin> set es"
    using that by (intro run_overlay_none) simp_all
  then show ?thesis using a by blast
qed

theorem apply_brush_without_overlay_witness:
  "overlay_image (view main_start) = None \<and>
   apply_brush sample_toolkit (5, 7) main_start = main_start \<and>
   apply_brush sample_toolkit (5, 7) (run sample_toolkit [EraseClick] main_start)
     = run sample_toolkit [EraseClick] main_start"
  using apply_brush_without_overlay [of main_start sample_toolkit "(5, 7)" "[EraseClick]"]
  by simp

section \<open>What an image load does to tool and brush radius\<close>

text \<open>
  Claim C7, as amended: the Brush Radius is the same after every ``open image'' action as
  before it; the Tool Mode is the same too, except that a successful load into the
  Interactive tab (a non-empty path, a pixmap that decodes, tab 0 selected) resets it to
  none.
\<close>

theorem open_image_keeps_radius_resets_tool:
  "brush_radius (view (on_open_image tk path s)) = brush_radius (view s) \<and>
   tool (view (on_open_image tk path s)) =
     (if path \<noteq> [] \<and> \<not> isNull (qt_load_pixmap tk path) \<and> tabs_currentIndex s = 0
      then ToolNone else tool (view s))"
  by (simp add: on_open_image_def Let_def)

lemma sample_pixmap: "qt_load_pixmap sample_toolkit ''map.png'' = replicate 2 (replicate 3 (QColor 255 255 255 255))"
  by (simp add: sample_toolkit_def)

lemma sample_pixmap_not_null: "\<not> isNull (qt_load_pixmap sample_toolkit ''map.png'')"
  by (simp add: sample_pixmap isNull_def img_width_def img_height_def numeral_2_eq_2 numeral_3_eq_3)

lemma erase_click_main_start:
  "tool (view (step tk EraseClick main_start)) = Erase"
  "tabs_currentIndex (step tk EraseClick main_start) = 0"
  "brush_radius (view (step tk EraseClick main_start)) = 20"
  by (simp_all add: step_def on_erase_clicked_def Let_def main_start_def MainWindow_init_def
        set_interaction_callbacks_def MyGraphicsView_init_def)

theorem open_image_keeps_radius_resets_tool_witness:
  "brush_radius (view (on_open_image sample_toolkit ''map.png'' (step sample_toolkit EraseClick main_start))) = 20 \<and>
   tool (view (on_open_image sample_toolkit ''map.png'' (step sample_toolkit EraseClick main_start))) = ToolNone \<and>
   tool (view (on_open_image sample_toolkit ''map.png''
     ((step sample_toolkit EraseClick main_start)\<lparr>tabs_currentIndex := 1\<rparr>))) = Erase"
  using open_image_keeps_radius_resets_tool
          [of sample_toolkit "''map.png''" "step sample_toolkit EraseClick main_start"]
        open_image_keeps_radius_resets_tool
          [of sample_toolkit "''map.png''" "(step sample_toolkit EraseClick main_start)\<lparr>tabs_currentIndex := 1\<rparr>"]
        sample_pixmap_not_null
  by (simp add: erase_click_main_start)

text \<open>
  As first stated, C7 has the Tool Mode persist across every load. With Erase selected,
  loading an image into the Interactive tab leaves the tool at none.
\<close>

theorem open_image_resets_tool_counterexample:
  "\<not> (tool (view (on_open_image sample_toolkit ''map.png'' (step sample_toolkit EraseClick main_start)))
       = tool (view (step sample_toolkit EraseClick main_start)))"
  using sample_pixmap_not_null
  by (simp add: on_open_image_def Let_def erase_click_main_start)

section \<open>The Erase and Paint buttons\<close>

text \<open>
  Claim C4: after every sequence of events from start-up the Erase and Paint buttons are
  never both checked, and the Tool Mode is the one the buttons show. Checking Erase sets
  the Tool Mode to erase and unchecks Paint; checking Paint sets it to paint and unchecks
  Erase; unchecking either button while the other is unchecked sets it to none. (A click
  toggles the button and then runs its handler; the state is read after the handler.)
\<close>

theorem tool_buttons_exclusive:
  "\<not> (erase_btn (run tk es main_start) \<and> paint_btn (run tk es main_start)) \<and>
   tool (view (run tk es main_start)) =
     (if erase_btn (run tk es main_start) then Erase
      else if paint_btn (run tk es main_start) then Paint else ToolNone) \<and>
   (\<not> erase_btn s \<longrightarrow>
      erase_btn (step tk EraseClick s) \<and> \<not> paint_btn (step tk EraseClick s) \<and>
      tool (view (step tk EraseClick s)) = Erase) \<and>
   (\<not> paint_btn s \<longrightarrow>
      paint_btn (step tk PaintClick s) \<and> \<not> erase_btn (step tk PaintClick s) \<and>
      tool (view (step tk PaintClick s)) = Paint) \<and>
   (erase_btn s \<and> \<not> paint_btn s \<longrightarrow>
      \<not> erase_btn (step tk EraseClick s) \<and> \<not> paint_btn (step tk EraseClick s) \<and>
      tool (view (step tk EraseClick s)) = ToolNone) \<and>
   (paint_btn s \<and> \<not> erase_btn s \<longrightarrow>
      \<not> paint_btn (step tk PaintClick s) \<and> \<not> erase_btn (step tk PaintClick s) \<and>
      tool (view (step tk PaintClick s)) = ToolNone)"
proof -
  have "buttons_agree (run tk es main_start)"
    by (rule buttons_agree_run) simp
  then have reach:
    "\<not> (erase_btn (run tk es main_start) \<and> paint_btn (run tk es main_start))"
    "tool (view (run tk es main_start)) =
       (if erase_btn (run tk es main_start) then Erase
        else if paint_btn (run tk es main_start) then Paint else ToolNone)"
    by (simp_all add: buttons_agree_def)
  have clicks:
    "\<not> erase_btn s \<longrightarrow>
      erase_btn (step tk EraseClick s) \<and> \<not> paint_btn (step tk EraseClick s) \<and>
      tool (view (step tk EraseClick s)) = Erase"
    "\<not> paint_btn s \<longrightarrow>
      paint_btn (step tk PaintClick s) \<and> \<not> erase_btn (step tk PaintClick s) \<and>
      tool (view (step tk PaintClick s)) = Paint"
    "erase_btn s \<and> \<not> paint_btn s \<longrightarrow>
      \<not> erase_btn (step tk EraseClick s) \<and> \<not> paint_btn (step tk EraseClick s) \<and>
      tool (view (step tk EraseClick s)) = ToolNone"
    "paint_btn s \<and> \<not> erase_btn s \<longrightarrow>
      \<not> paint_btn (step tk PaintClick s) \<and> \<not> erase_btn (step tk PaintClick s) \<and>
      tool (view (step tk PaintClick s)) = ToolNone"
    by (simp_all add: step_def on_erase_clicked_def on_paint_clicked_def Let_def)
  from reach clicks show ?thesis by blast
qed

lemma erase_click_buttons:
  "erase_btn (step tk EraseClick main_start)" "\<not> paint_btn (step tk EraseClick main_start)"
  by (simp_all add: step_def on_erase_clicked_def Let_def main_start_def MainWindow_init_def)

lemma main_start_buttons:
  "\<not> erase_btn main_start" "\<not> paint_btn main_start"
  by (simp_all add: main_start_def MainWindow_init_def)

theorem tool_buttons_exclusive_witness:
  "\<not> erase_btn main_start \<and> \<not> paint_btn main_start \<and>
   tool (view (step sample_toolkit EraseClick main_start)) = Erase \<and>
   tool (view (step sample_toolkit PaintClick main_start)) = Paint \<and>
   erase_btn (step sample_toolkit EraseClick main_start) \<and>
   \<not> paint_btn (step sample_toolkit EraseClick main_start) \<and>
   tool (view (step sample_toolkit EraseClick (step sample_toolkit EraseClick main_start))) = ToolNone \<and>
   paint_btn (step sample_toolkit PaintClick (step sample_toolkit EraseClick main_start)) \<and>
   \<not> erase_btn (step sample_toolkit PaintClick (step sample_toolkit EraseClick main_start)) \<and>
   \<not> (erase_btn (run sample_toolkit [EraseClick, PaintClick] main_start) \<and>
      paint_btn (run sample_toolkit [EraseClick, PaintClick] main_start))"
  using tool_buttons_exclusive [of sample_toolkit "[EraseClick, PaintClick]" main_start]
        tool_buttons_exclusive [of sample_toolkit "[]" "step sample_toolkit EraseClick main_start"]
        main_start_buttons erase_click_buttons [of sample_toolkit]
  by simp

section \<open>Closing the mirror windows\<close>

lemma step_detached:
  "m_main_window (mirror_window s) = None \<and> sm_main_window (static_mirror_window s) = None \<Longrightarrow>
   m_main_window (mirror_window (step tk e s)) = None \<and>
   sm_main_window (static_mirror_window (step tk e s)) = None"
  by (cases e)
     (simp_all add: step_def wheelEvent_def mousePressEvent_def mouseReleaseEvent_def
        mouseMoveEvent_def on_open_image_def on_erase_clicked_def on_paint_clicked_def
        on_brush_slider_changed_def MirrorWindow_close_def StaticMirrorWindow_close_def
        MainWindow_close_def MainWindow_closeEvent_def Let_def)

lemma run_detached:
  "m_main_window (mirror_window s) = None \<and> sm_main_window (static_mirror_window s) = None \<Longrightarrow>
   m_main_window (mirror_window (run tk es s)) = None \<and>
   sm_main_window (static_mirror_window (run tk es s)) = None"
  by (induction es arbitrary: s) (simp_all add: step_detached)

lemma close_main_detaches:
  "m_main_window (mirror_window (step tk CloseMain s)) = None \<and>
   sm_main_window (static_mirror_window (step tk CloseMain s)) = None"
  by (simp add: step_def MainWindow_close_def MainWindow_closeEvent_def Let_def
        MirrorWindow_close_def StaticMirrorWindow_close_def)

text \<open>
  Claim C9: as long as the main window has not been closed, a close request to the Mirror
  Window or to the Static Mirror Window is ignored and both stay shown; once the main
  window's close handler has run, which detaches and closes both, either mirror window
  accepts every later close request.
\<close>

theorem mirrors_close_only_after_detach:
  "(CloseMain \<notin> set es \<longrightarrow>
      \<not> MirrorWindow_closeEvent (run tk es main_start) \<and>
      \<not> StaticMirrorWindow_closeEvent (run tk es main_start) \<and>
      m_visible (mirror_window (run tk es main_start)) \<and>
      sm_visible (static_mirror_window (run tk es main_start))) \<and>
   MirrorWindow_closeEvent (run tk es' (step tk CloseMain s)) \<and>
   StaticMirrorWindow_closeEvent (run tk es' (step tk CloseMain s)) \<and>
   \<not> m_visible (mirror_window (step tk CloseMain s)) \<and>
   \<not> sm_visible (static_mirror_window (step tk CloseMain s))"
proof -
  have "attached (run tk es main_start)" if "CloseMain \<notin> set es"
    using that by (intro attached_run) simp_all
  then have before: "CloseMain \<notin> set es \<longrightarrow>
      \<not> MirrorWindow_closeEvent (run tk es main_start) \<and>
      \<not> StaticMirrorWindow_closeEvent (run tk es main_start) \<and>
      m_visible (mirror_window (run tk es main_start)) \<and>
      sm_visible (static_mirror_window (run tk es main_start))"
    by (auto simp add: attached_def MirrorWindow_closeEvent_def StaticMirrorWindow_closeEvent_def)
  have "m_main_window (mirror_window (run tk es' (step tk CloseMain s))) = None \<and>
        sm_main_window (static_mirror_window (run tk es' (step tk CloseMain s))) = None"
    by (rule run_detached) (rule close_main_detaches)
  then have after: "MirrorWindow_closeEvent (run tk es' (step tk CloseMain s))"
    "StaticMirrorWindow_closeEvent (run tk es' (step tk CloseMain s))"
    by (simp_all add: MirrorWindow_closeEvent_def StaticMirrorWindow_closeEvent_def)
  have hidden: "\<not> m_visible (mirror_window (step tk CloseMain s))"
    "\<not> sm_visible (static_mirror_window (step tk CloseMain s))"
    by (simp_all add: step_def MainWindow_close_def MainWindow_closeEvent_def Let_def
        MirrorWindow_close_def StaticMirrorWindow_close_def MirrorWindow_closeEvent_def
        StaticMirrorWindow_closeEvent_def)
  from before after hidden show ?thesis by blast
qed

theorem mirrors_close_only_after_detach_witness:
  "CloseMain \<notin> set [CloseMirror, EraseClick, CloseStaticMirror] \<and>
   m_visible (mirror_window (run sample_toolkit [CloseMirror, EraseClick, CloseStaticMirror] main_start)) \<and>
   sm_visible (static_mirror_window (run sample_toolkit [CloseMirror, EraseClick, CloseStaticMirror] main_start)) \<and>
   \<not> MirrorWindow_closeEvent (run sample_toolkit [CloseMirror, EraseClick, CloseStaticMirror] main_start) \<and>
   MirrorWindow_closeEvent (run sample_toolkit [CloseMirror] (step sample_toolkit CloseMain main_start)) \<and>
   StaticMirrorWindow_closeEvent (run sample_toolkit [CloseMirror] (step sample_toolkit CloseMain main_start))"
  using mirrors_close_only_after_detach
          [of "[CloseMirror, EraseClick, CloseStaticMirror]" sample_toolkit "[CloseMirror]" main_start]
  by simp

section \<open>Loading an image into the Interactive tab\<close>

lemma fill_QImage_new:
  "0 < w \<Longrightarrow> 0 < h \<Longrightarrow> fill c (QImage_new tk w h) = replicate (nat h) (replicate (nat w) c)"
  by (simp add: fill_def QImage_new_def comp_def map_replicate_const)

lemma img_width_replicate:
  "0 < n \<Longrightarrow> img_width (replicate n (replicate m c)) = int m"
  by (cases n) (simp_all add: img_width_def)

lemma img_height_replicate: "img_height (replicate n row) = int n"
  by (simp add: img_height_def)

lemma pixel_replicate:
  "pixel (replicate n (replicate m c)) x y = (if x < m \<and> y < n then Some c else None)"
  by (simp add: pixel_def)

lemma not_isNull_pos: "\<not> isNull img \<Longrightarrow> 0 < img_width img \<and> 0 < img_height img"
  by (simp add: isNull_def)

lemma load_interactive_image_overlay_item:
  "items (load_interactive_image tk pm s) OverlayItem =
     fill (QColor 0 0 0 255) (QImage_new tk (img_width pm) (img_height pm))"
  by (simp add: load_interactive_image_def Let_def)

text \<open>
  Claim C3: when an image that decodes is opened while the Interactive tab is selected, the
  Overlay Bitmap afterwards has the width and height of the new base image, every one of
  its pixels is opaque black (and it has no pixel outside that rectangle), the overlay
  item shows the same bitmap, and the Tool Mode is none with both buttons unchecked.
\<close>

theorem interactive_load_resets_overlay:
  assumes "path \<noteq> []" and "pm = qt_load_pixmap tk path" and "\<not> isNull pm"
    and "tabs_currentIndex s = 0" and "s' = on_open_image tk path s"
  shows "\<exists>overlay. overlay_image (view s') = Some overlay \<and>
           items s' OverlayItem = overlay \<and>
           img_width overlay = img_width pm \<and> img_height overlay = img_height pm \<and>
           (\<forall>x y. pixel overlay x y =
              (if int x < img_width pm \<and> int y < img_height pm then Some (QColor 0 0 0 255)
               else None)) \<and>
           tool (view s') = ToolNone \<and> \<not> erase_btn s' \<and> \<not> paint_btn s'"
proof -
  let ?ov = "replicate (nat (img_height pm)) (replicate (nat (img_width pm)) (QColor 0 0 0 255))"
  have pos: "0 < img_width pm" "0 < img_height pm"
    using assms(3) by (simp_all add: isNull_def)
  have s': "s' = load_interactive_image tk pm s"
    using assms by (simp add: on_open_image_def Let_def)
  have ov: "fill (QColor 0 0 0 255) (QImage_new tk (img_width pm) (img_height pm)) = ?ov"
    using pos by (rule fill_QImage_new)
  have "overlay_image (view s') = Some ?ov" "items s' OverlayItem = ?ov"
    by (simp_all add: s' ov load_interactive_image_overlay_item)
  moreover have "img_width ?ov = img_width pm" "img_height ?ov = img_height pm"
    using pos by (simp_all add: img_width_replicate img_height_replicate)
  moreover have "\<forall>x y. pixel ?ov x y =
      (if int x < img_width pm \<and> int y < img_height pm then Some (QColor 0 0 0 255) else None)"
    using pos by (auto simp add: pixel_replicate)
  moreover have "tool (view s') = ToolNone" "\<not> erase_btn s'" "\<not> paint_btn s'"
    by (simp_all add: s')
  ultimately show ?thesis by blast
qed

theorem interactive_load_resets_overlay_witness:
  "\<not> isNull (qt_load_pixmap sample_toolkit ''map.png'') \<and>
   tabs_currentIndex (step sample_toolkit PaintClick main_start) = 0 \<and>
   (\<exists>overlay.
      overlay_image (view (on_open_image sample_toolkit ''map.png''
         (step sample_toolkit PaintClick main_start))) = Some overlay \<and>
      img_width overlay = 3 \<and> img_height overlay = 2 \<and>
      pixel overlay 2 1 = Some (QColor 0 0 0 255) \<and> pixel overlay 3 1 = None) \<and>
   tool (view (on_open_image sample_toolkit ''map.png''
      (step sample_toolkit PaintClick main_start))) = ToolNone"
proof -
  have null: "\<not> isNull (qt_load_pixmap sample_toolkit ''map.png'')"
    by (rule sample_pixmap_not_null)
  have tab: "tabs_currentIndex (step sample_toolkit PaintClick main_start) = 0"
    by (simp add: step_def on_paint_clicked_def Let_def main_start_def MainWindow_init_def)
  have dims: "img_width (qt_load_pixmap sample_toolkit ''map.png'') = 3"
    "img_height (qt_load_pixmap sample_toolkit ''map.png'') = 2"
    by (simp_all add: sample_pixmap img_width_replicate img_height_replicate)
  from interactive_load_resets_overlay
         [of "''map.png''" "qt_load_pixmap sample_toolkit ''map.png''" sample_toolkit
             "step sample_toolkit PaintClick main_start"
             "on_open_image sample_toolkit ''map.png'' (step sample_toolkit PaintClick main_start)",
          OF _ refl null tab refl]
  obtain overlay where
    "overlay_image (view (on_open_image sample_toolkit ''map.png''
         (step sample_toolkit PaintClick main_start))) = Some overlay"
    "img_width overlay = 3" "img_height overlay = 2"
    "\<forall>x y. pixel overlay x y = (if int x < 3 \<and> int y < 2 then Some (QColor 0 0 0 255) else None)"
    "tool (view (on_open_image sample_toolkit ''map.png''
      (step sample_toolkit PaintClick main_start))) = ToolNone"
    by (auto simp add: dims)
  then show ?thesis using null tab by simp
qed

section \<open>Brush strokes on the overlay\<close>

lemma length_map_pixels [simp]: "length (map_pixels f img) = length img"
  by (simp add: map_pixels_def)

lemma pixel_map_pixels:
  "pixel (map_pixels f img) x y = map_option (f (int x) (int y)) (pixel img x y)"
  by (simp add: pixel_def map_pixels_def nth_enumerate_eq)

lemma img_width_map_pixels [simp]: "img_width (map_pixels f img) = img_width img"
  by (cases img) (simp_all add: img_width_def map_pixels_def)

lemma isNull_map_pixels [simp]: "isNull (map_pixels f img) = isNull img"
  by (simp add: isNull_def img_height_def)

lemma pixel_drawEllipse_erase:
  "pixel (drawEllipse tk (brush_painter Erase) x y w h img) px py =
     map_option (\<lambda>c. if qt_ellipse_fill tk (x, y, w, h) (int px) (int py) then QColor 0 0 0 0 else c)
       (pixel img px py)"
  by (cases "qt_ellipse_fill tk (x, y, w, h) (int px) (int py)")
     (simp_all add: drawEllipse_def pixel_map_pixels brush_painter_def default_painter_def
        compose_def)

lemma pixel_drawEllipse_paint:
  "pixel (drawEllipse tk (brush_painter Paint) x y w h img) px py =
     map_option (\<lambda>c. if qt_ellipse_fill tk (x, y, w, h) (int px) (int py) then QColor 0 0 0 255 else c)
       (pixel img px py)"
  by (cases "qt_ellipse_fill tk (x, y, w, h) (int px) (int py)")
     (simp_all add: drawEllipse_def pixel_map_pixels brush_painter_def default_painter_def
        compose_def)

lemma isNull_drawEllipse [simp]: "isNull (drawEllipse tk p x y w h img) = isNull img"
  by (simp add: drawEllipse_def)

lemma apply_brush_overlay:
  assumes "overlay_image (view s) = Some img" and "overlay_item (view s) = Some item"
    and "\<not> isNull img" and "brush_center tk view_pos item (view s) = (cx, cy)"
  shows "overlay_image (view (apply_brush tk view_pos s)) =
           Some (drawEllipse tk (brush_painter (tool (view s)))
                   (cx - brush_radius (view s)) (cy - brush_radius (view s))
                   (brush_radius (view s) * 2) (brush_radius (view s) * 2) img)"
  using assms by (simp add: apply_brush_def Let_def)

lemma brush_center_geom:
  "geom v' = geom v \<Longrightarrow> brush_center tk view_pos item v' = brush_center tk view_pos item v"
  by (simp add: brush_center_def)

text \<open>
  Claim C2: take any overlay bitmap, pointer position and brush radius; apply an erase
  stroke and then a paint stroke at the same position with the same radius. Both strokes
  cover the same pixels, the interior of the ellipse around the brush centre. Every pixel
  of the bitmap that they cover is transparent after the erase stroke and opaque black
  (alpha 255) after the paint stroke; every other pixel of the bitmap keeps its colour.
  Only pixels of the bitmap are written, which is the clipping at its edges.
\<close>

theorem erase_then_paint_restores_opacity:
  assumes overlay: "overlay_image (view s) = Some img" "overlay_item (view s) = Some item"
      "\<not> isNull img"
    and center: "brush_center tk view_pos item (view s) = (cx, cy)"
    and radius: "r = brush_radius (view s)"
    and erase: "s1 = apply_brush tk view_pos (s\<lparr>view := set_tool tk Erase (view s)\<rparr>)"
    and paint: "s2 = apply_brush tk view_pos (s1\<lparr>view := set_tool tk Paint (view s1)\<rparr>)"
    and inside: "pixel img x y = Some c"
  shows "\<exists>img1 img2.
           overlay_image (view s1) = Some img1 \<and> overlay_image (view s2) = Some img2 \<and>
           pixel img1 x y =
             Some (if qt_ellipse_fill tk (cx - r, cy - r, r * 2, r * 2) (int x) (int y)
                   then QColor 0 0 0 0 else c) \<and>
           pixel img2 x y =
             Some (if qt_ellipse_fill tk (cx - r, cy - r, r * 2, r * 2) (int x) (int y)
                   then QColor 0 0 0 255 else c)"
proof -
  let ?e = "s\<lparr>view := set_tool tk Erase (view s)\<rparr>"
  let ?img1 = "drawEllipse tk (brush_painter Erase) (cx - r) (cy - r) (r * 2) (r * 2) img"
  have c1: "brush_center tk view_pos item (view ?e) = (cx, cy)"
    using center by (simp add: brush_center_def)
  have o1: "overlay_image (view s1) = Some ?img1"
    unfolding erase radius
    using apply_brush_overlay [of ?e img item tk view_pos cx cy] overlay c1 by simp
  let ?p = "s1\<lparr>view := set_tool tk Paint (view s1)\<rparr>"
  let ?img2 = "drawEllipse tk (brush_painter Paint) (cx - r) (cy - r) (r * 2) (r * 2) ?img1"
  have item1: "overlay_item (view s1) = Some item"
    unfolding erase using overlay(2) by simp
  have geom1: "geom (view s1) = geom (view s)" "brush_radius (view s1) = r"
    unfolding erase radius by simp_all
  have c2: "brush_center tk view_pos item (view ?p) = (cx, cy)"
    using center geom1(1) by (simp add: brush_center_def)
  have o2: "overlay_image (view s2) = Some ?img2"
    unfolding paint
    using apply_brush_overlay [of ?p ?img1 item tk view_pos cx cy] o1 item1 c2 geom1(2) overlay(3)
    by simp
  have p1: "pixel ?img1 x y =
      Some (if qt_ellipse_fill tk (cx - r, cy - r, r * 2, r * 2) (int x) (int y)
            then QColor 0 0 0 0 else c)"
    by (simp add: pixel_drawEllipse_erase inside)
  have p2: "pixel ?img2 x y =
      Some (if qt_ellipse_fill tk (cx - r, cy - r, r * 2, r * 2) (int x) (int y)
            then QColor 0 0 0 255 else c)"
    by (simp add: pixel_drawEllipse_paint p1)
  from o1 o2 p1 p2 show ?thesis by blast
qed


lemma load_interactive_image_geom:
  "geom (view (load_interactive_image tk pm s)) = qt_fitInView tk (img_rect pm) (geom (view s))"
  by (simp add: load_interactive_image_def Let_def set_overlay_def)

lemma sample_loaded_view:
  "overlay_image (view sample_loaded) = Some (replicate 2 (replicate 3 (QColor 0 0 0 255)))"
  "overlay_item (view sample_loaded) = Some OverlayItem"
  "brush_radius (view sample_loaded) = 1"
  "geom (view sample_loaded) = initial_geom"
proof -
  have pm: "qt_load_pixmap sample_toolkit ''map.png'' = replicate 2 (replicate 3 (QColor 255 255 255 255))"
    by (rule sample_pixmap)
  have dims: "img_width (replicate 2 (replicate 3 (QColor 255 255 255 255))) = 3"
    "img_height (replicate 2 (replicate 3 (QColor 255 255 255 255))) = 2"
    by (simp_all add: img_width_replicate img_height_replicate)
  have nn: "\<not> isNull (replicate 2 (replicate 3 (QColor 255 255 255 255)))"
    by (simp add: isNull_def dims)
  have tab: "tabs_currentIndex main_start = 0" "brush_slider main_start = 20"
    "geom (view main_start) = initial_geom"
    by (simp_all add: main_start_def MainWindow_init_def set_interaction_callbacks_def
          MyGraphicsView_init_def)
  have fit: "qt_fitInView sample_toolkit = (\<lambda>r g. g)"
    by (simp add: sample_toolkit_def)
  have ov: "fill (QColor 0 0 0 255) (QImage_new sample_toolkit 3 2) = replicate 2 (replicate 3 (QColor 0 0 0 255))"
    using fill_QImage_new [of 3 2 "QColor 0 0 0 255" sample_toolkit] by simp
  show "overlay_image (view sample_loaded) = Some (replicate 2 (replicate 3 (QColor 0 0 0 255)))"
    "overlay_item (view sample_loaded) = Some OverlayItem"
    "brush_radius (view sample_loaded) = 1"
    "geom (view sample_loaded) = initial_geom"
    by (simp_all add: sample_loaded_def step_def on_open_image_def pm nn tab dims ov fit Let_def
          on_brush_slider_changed_def load_interactive_image_geom)
qed

theorem erase_then_paint_restores_opacity_witness:
  "(\<exists>img1 img2.
      overlay_image (view sample_erased) = Some img1 \<and>
      overlay_image (view sample_repainted) = Some img2 \<and>
      pixel img1 0 0 = Some (QColor 0 0 0 0) \<and>
      pixel img2 0 0 = Some (QColor 0 0 0 255))"
proof -
  let ?img = "replicate 2 (replicate 3 (QColor 0 0 0 255))"
  have nn: "\<not> isNull ?img"
    by (simp add: isNull_def img_width_replicate img_height_replicate)
  have center: "brush_center sample_toolkit (1, 1) OverlayItem (view sample_loaded) = (1, 1)"
    by (simp add: brush_center_def sample_loaded_view sample_toolkit_def initial_geom_def
          identity_transform_def py_int_def)
  have inside: "pixel ?img 0 0 = Some (QColor 0 0 0 255)"
    by (simp add: pixel_replicate)
  have touched: "qt_ellipse_fill sample_toolkit (1 - 1, 1 - 1, 1 * 2, 1 * 2) (int 0) (int 0)"
    by (simp add: sample_toolkit_def)
  from erase_then_paint_restores_opacity
         [OF sample_loaded_view(1) sample_loaded_view(2) nn center sample_loaded_view(3) [symmetric]
             sample_erased_def sample_repainted_def inside]
  show ?thesis using touched by simp
qed

section \<open>The brush cursor\<close>

lemma cursor_radius_brush_cursor [simp]: "cursor_radius (brush_cursor sr) = Some sr"
  by (simp add: cursor_radius_def brush_cursor_def Let_def)

lemma isNull_cursor_image:
  "isNull (cursor_image tk sr) = qt_image_too_large tk (cursor_size sr) (cursor_size sr)"
proof -
  have pos: "0 < cursor_size sr" by (simp add: cursor_size_def)
  show ?thesis
  proof (cases "qt_image_too_large tk (cursor_size sr) (cursor_size sr)")
    case True
    then show ?thesis
      by (simp add: cursor_image_def QImage_alloc_def fill_def isNull_def img_width_def)
  next
    case False
    have "cursor_image tk sr =
        replicate (nat (cursor_size sr)) (replicate (nat (cursor_size sr)) (QColor 0 0 0 0))"
      using False pos by (simp add: cursor_image_def QImage_alloc_def fill_QImage_new)
    then show ?thesis
      using False pos by (simp add: isNull_def img_width_replicate img_height_replicate)
  qed
qed

text \<open>
  Where the image of the glyph cannot be allocated, \<^verbatim>\<open>update_cursor\<close> leaves the arrow
  cursor in place although a brush tool is selected.
\<close>

lemma brush_cursor_lost_when_image_too_large:
  assumes "tool v \<in> {Erase, Paint}"
    and "sr = screen_radius tk (brush_radius v) (g_transform (geom v))"
    and "qt_image_too_large tk (cursor_size sr) (cursor_size sr)"
  shows "cursor (update_cursor tk v) = ArrowCursor"
  using assms by (simp add: update_cursor_def Let_def isNull_cursor_image)

text \<open>
  Claim C6, as amended: take any state the program reaches from start-up in which a brush
  tool (erase or paint) is selected. If the image of the glyph can be created, the cursor
  is the circular glyph whose on-screen radius is \<^verbatim>\<open>max(1, int(brush_radius *
  scale_factor))\<close>: the Brush Radius times the zoom factor (the average of the
  transform's \<open>m11\<close> and \<open>m22\<close>), truncated to an integer and never less than 1. A change
  of the Brush Radius recomputes the glyph for the new radius, under the same condition.
  The zoom does not change while a brush tool is selected: a wheel event leaves the state
  as it is.
\<close>

theorem brush_cursor_radius_follows_zoom:
  assumes "s = run tk es main_start" and "tool (view s) \<in> {Erase, Paint}"
  shows "(\<not> isNull (cursor_image tk
              (screen_radius tk (brush_radius (view s)) (g_transform (geom (view s))))) \<longrightarrow>
          cursor (view s) =
            brush_cursor (screen_radius tk (brush_radius (view s)) (g_transform (geom (view s)))) \<and>
          cursor_radius (cursor (view s)) =
            Some (max 1 (py_int (fl_mul tk (fl_of_int tk (brush_radius (view s)))
                    (fl_div tk (fl_add tk (m11 (g_transform (geom (view s))))
                                          (m22 (g_transform (geom (view s))))) 2))))) \<and>
         (\<not> isNull (cursor_image tk (screen_radius tk r (g_transform (geom (view s))))) \<longrightarrow>
          cursor_radius (cursor (set_brush_radius tk r (view s))) =
            Some (max 1 (py_int (fl_mul tk (fl_of_int tk r)
                    (fl_div tk (fl_add tk (m11 (g_transform (geom (view s))))
                                          (m22 (g_transform (geom (view s))))) 2))))) \<and>
         wheelEvent tk ev s = s"
proof -
  have "cursor_current tk (view s)"
    unfolding assms(1) by (rule cursor_current_run) simp
  with assms(2) have c: "cursor (view s) =
      installed_cursor tk (brush_radius (view s)) (g_transform (geom (view s)))"
    by (auto simp add: cursor_current_def)
  have one: "\<not> isNull (cursor_image tk
              (screen_radius tk (brush_radius (view s)) (g_transform (geom (view s))))) \<longrightarrow>
          cursor (view s) =
            brush_cursor (screen_radius tk (brush_radius (view s)) (g_transform (geom (view s)))) \<and>
          cursor_radius (cursor (view s)) =
            Some (max 1 (py_int (fl_mul tk (fl_of_int tk (brush_radius (view s)))
                    (fl_div tk (fl_add tk (m11 (g_transform (geom (view s))))
                                          (m22 (g_transform (geom (view s))))) 2))))"
    by (simp add: c installed_cursor_def) (simp add: screen_radius_def scale_factor_def)
  have "cursor (set_brush_radius tk r (view s)) = installed_cursor tk r (g_transform (geom (view s)))"
    using assms(2) by (auto simp add: set_brush_radius_def update_cursor_def installed_cursor_def Let_def)
  then have two: "\<not> isNull (cursor_image tk (screen_radius tk r (g_transform (geom (view s))))) \<longrightarrow>
          cursor_radius (cursor (set_brush_radius tk r (view s))) =
            Some (max 1 (py_int (fl_mul tk (fl_of_int tk r)
                    (fl_div tk (fl_add tk (m11 (g_transform (geom (view s))))
                                          (m22 (g_transform (geom (view s))))) 2))))"
    by (simp add: installed_cursor_def) (simp add: screen_radius_def scale_factor_def)
  have three: "wheelEvent tk ev s = s"
    using assms(2) by (intro wheelEvent_brush) auto
  from one two three show ?thesis by blast
qed

lemma sample_zoomed_out_view:
  "tool (view sample_zoomed_out) = Erase"
  "brush_radius (view sample_zoomed_out) = 3"
  "g_transform (geom (view sample_zoomed_out)) = identity_transform\<lparr>m11 := 5 / 6, m22 := 5 / 6\<rparr>"
proof -
  have start: "tool (view main_start) = ToolNone" "brush_slider main_start = 20"
    "geom (view main_start) = initial_geom" "\<not> erase_btn main_start"
    by (simp_all add: main_start_def MainWindow_init_def set_interaction_callbacks_def
          MyGraphicsView_init_def)
  have tk: "fl_round sample_toolkit = (\<lambda>x. x)" "qt_translate sample_toolkit = (\<lambda>dx dy g. g)"
    "qt_scale sample_toolkit = (\<lambda>sx sy g. g\<lparr>g_transform := (g_transform g)\<lparr>m11 := m11 (g_transform g) * sx,
                                                                m22 := m22 (g_transform g) * sy\<rparr>\<rparr>)"
    by (simp_all add: sample_toolkit_def)
  show "tool (view sample_zoomed_out) = Erase"
    "brush_radius (view sample_zoomed_out) = 3"
    "g_transform (geom (view sample_zoomed_out)) = identity_transform\<lparr>m11 := 5 / 6, m22 := 5 / 6\<rparr>"
    by (simp_all add: sample_zoomed_out_def step_def wheelEvent_def start tk Let_def fl_div_def
          on_brush_slider_changed_def on_erase_clicked_def initial_geom_def identity_transform_def)
qed

lemma sample_image_fits:
  "0 \<le> sr \<Longrightarrow> sr \<le> 100 \<Longrightarrow> \<not> isNull (cursor_image sample_toolkit sr)"
proof -
  assume a: "0 \<le> sr" "sr \<le> 100"
  then have b: "64 \<le> cursor_size sr" "cursor_size sr \<le> 210"
    by (simp_all add: cursor_size_def)
  then have "cursor_size sr * cursor_size sr \<le> 210 * 210"
    by (intro mult_mono) simp_all
  then show ?thesis
    by (simp add: isNull_cursor_image sample_toolkit_def)
qed

theorem brush_cursor_radius_follows_zoom_witness:
  "tool (view sample_zoomed_out) = Erase \<and>
   brush_radius (view sample_zoomed_out) = 3 \<and>
   \<not> isNull (cursor_image sample_toolkit 2) \<and>
   cursor_radius (cursor (view sample_zoomed_out)) = Some 2 \<and>
   cursor_radius (cursor (set_brush_radius sample_toolkit 6 (view sample_zoomed_out))) = Some 5 \<and>
   wheelEvent sample_toolkit \<lparr>we_point = (0, 0), we_angleDelta_y = 120\<rparr> sample_zoomed_out
     = sample_zoomed_out"
proof -
  have tk: "fl_round sample_toolkit = (\<lambda>x. x)"
    by (simp add: sample_toolkit_def)
  have "(5::real) / 2 = 2 + 1 / 2" by simp
  then have fl: "\<lfloor>(5::real) / 2\<rfloor> = 2" by (simp only: floor_eq_iff) simp
  have t: "tool (view sample_zoomed_out) \<in> {Erase, Paint}"
    by (simp add: sample_zoomed_out_view)
  have sr: "screen_radius sample_toolkit 3 (identity_transform\<lparr>m11 := 5 / 6, m22 := 5 / 6\<rparr>) = 2"
    "screen_radius sample_toolkit 6 (identity_transform\<lparr>m11 := 5 / 6, m22 := 5 / 6\<rparr>) = 5"
    by (simp_all add: screen_radius_def scale_factor_def fl_mul_def fl_div_def fl_add_def
          fl_of_int_def tk py_int_def fl identity_transform_def)
  have fits: "\<not> isNull (cursor_image sample_toolkit 2)" "\<not> isNull (cursor_image sample_toolkit 5)"
    by (simp_all add: sample_image_fits)
  note th = brush_cursor_radius_follows_zoom [OF sample_zoomed_out_def t, of 6
              "\<lparr>we_point = (0, 0), we_angleDelta_y = 120\<rparr>"]
  have "cursor_radius (cursor (view sample_zoomed_out)) = Some 2"
    using th [THEN conjunct1] fits
    by (simp add: sample_zoomed_out_view sr fl_mul_def fl_div_def fl_add_def fl_of_int_def tk
          py_int_def fl)
  moreover have "cursor_radius (cursor (set_brush_radius sample_toolkit 6 (view sample_zoomed_out))) = Some 5"
    using th [THEN conjunct2, THEN conjunct1] fits
    by (simp add: sample_zoomed_out_view sr fl_mul_def fl_div_def fl_add_def fl_of_int_def tk
          py_int_def)
  moreover have "wheelEvent sample_toolkit \<lparr>we_point = (0, 0), we_angleDelta_y = 120\<rparr> sample_zoomed_out
     = sample_zoomed_out"
    using th [THEN conjunct2, THEN conjunct2] .
  ultimately show ?thesis using fits by (simp add: sample_zoomed_out_view)
qed

text \<open>
  As first stated, C6 has the radius equal to the Brush Radius times the zoom factor. At
  half scale with a Brush Radius of 3 the product is 1.5 and the glyph's radius is 1.
\<close>

theorem cursor_radius_truncated_counterexample:
  "\<not> (map_option real_of_int (cursor_radius (cursor (update_cursor sample_toolkit sample_half_zoom_view)))
        = Some (real_of_int (brush_radius sample_half_zoom_view) *
                ((m11 (g_transform (geom sample_half_zoom_view)) +
                  m22 (g_transform (geom sample_half_zoom_view))) / 2)))"
proof -
  have tk: "fl_round sample_toolkit = (\<lambda>x. x)"
    by (simp add: sample_toolkit_def)
  have "(3::real) / 2 = 1 + 1 / 2" by simp
  then have fl: "\<lfloor>(3::real) / 2\<rfloor> = 1" by (simp only: floor_eq_iff) simp
  have sr: "screen_radius sample_toolkit 3 (identity_transform\<lparr>m11 := 1 / 2, m22 := 1 / 2\<rparr>) = 1"
    by (simp add: screen_radius_def scale_factor_def fl_mul_def fl_div_def fl_add_def
          fl_of_int_def tk py_int_def fl identity_transform_def)
  have fits: "\<not> isNull (cursor_image sample_toolkit 1)"
    by (simp add: sample_image_fits)
  have "cursor_radius (cursor (update_cursor sample_toolkit sample_half_zoom_view)) = Some 1"
    by (simp add: update_cursor_def sample_half_zoom_view_def sr fits Let_def
          initial_geom_def MyGraphicsView_init_def)
  then show ?thesis
    by (simp add: sample_half_zoom_view_def identity_transform_def initial_geom_def
          MyGraphicsView_init_def)
qed

section \<open>Zooming with the wheel\<close>

text \<open>
  With no tool selected the handler scales the view by 1.2 or by 1/1.2, as Python rounds
  them, and then translates it by the difference of the two scene points, whatever the
  toolkit does with these calls.
\<close>

lemma wheelEvent_geom:
  "tool (view s) = ToolNone \<Longrightarrow>
   geom (view (wheelEvent tk ev s)) =
     (let g = geom (view s);
          old_pos = qt_mapToScene tk g (we_point ev);
          zoom_factor = (if we_angleDelta_y ev > 0 then fl_round tk (12 / 10)
                         else fl_div tk 1 (fl_round tk (12 / 10)));
          g1 = qt_scale tk zoom_factor zoom_factor g;
          new_pos = qt_mapToScene tk g1 (we_point ev)
      in qt_translate tk (fl_sub tk (fst new_pos) (fst old_pos))
           (fl_sub tk (snd new_pos) (snd old_pos)) g1)"
  by (simp add: wheelEvent_def Let_def)

lemma qgv_fields:
  "fl_round (qgraphicsview_toolkit a vw vh) = (\<lambda>x. x)"
  "qt_mapToScene (qgraphicsview_toolkit a vw vh) = (\<lambda>g p. view_to_scene g (of_int (fst p), of_int (snd p)))"
  "qt_scale (qgraphicsview_toolkit a vw vh) = (\<lambda>sx sy g.
           setTransform_anchored a vw vh (transform_scale sx sy (g_transform g)) g)"
  "qt_translate (qgraphicsview_toolkit a vw vh) = (\<lambda>dx dy g.
           setTransform_anchored a vw vh (transform_translate dx dy (g_transform g)) g)"
  "qt_fitInView (qgraphicsview_toolkit a vw vh) = fitInView_keep_aspect vw vh"
  "qt_load_pixmap (qgraphicsview_toolkit a vw vh) ''large.png'' = replicate 600 (replicate 1000 (QColor 255 255 255 255))"
  by (simp_all add: qgraphicsview_toolkit_def sample_toolkit_def)

lemma identity_fields:
  "m11 identity_transform = 1" "m22 identity_transform = 1"
  "m12 identity_transform = 0" "m21 identity_transform = 0"
  "m31 identity_transform = 0" "m32 identity_transform = 0"
  by (simp_all add: identity_transform_def)

lemma sample_fitted_view:
  "tool (view sample_fitted) = ToolNone"
  "geom (view sample_fitted) =
     \<lparr>g_transform = identity_transform\<lparr>m11 := 1 / 2, m22 := 1 / 2\<rparr>, g_hbar = - 2, g_vbar = - 2\<rparr>"
proof -
  let ?pm = "replicate 600 (replicate 1000 (QColor 255 255 255 255))"
  have dims: "img_width ?pm = 1000" "img_height ?pm = 600"
    by (simp_all add: img_width_replicate img_height_replicate)
  then have nn: "\<not> isNull ?pm" by (simp add: isNull_def)
  have start: "tabs_currentIndex main_start = 0" "geom (view main_start) = initial_geom"
    by (simp_all add: main_start_def MainWindow_init_def set_interaction_callbacks_def
          MyGraphicsView_init_def)
  have s: "sample_fitted = load_interactive_image (qgraphicsview_toolkit AnchorViewCenter 504 304) ?pm main_start"
    by (simp add: sample_fitted_def step_def on_open_image_def qgv_fields nn start Let_def)
  show "tool (view sample_fitted) = ToolNone" by (simp add: s)
  show "geom (view sample_fitted) =
     \<lparr>g_transform = identity_transform\<lparr>m11 := 1 / 2, m22 := 1 / 2\<rparr>, g_hbar = - 2, g_vbar = - 2\<rparr>"
    by (simp add: s load_interactive_image_geom qgv_fields img_rect_def dims start
          fitInView_keep_aspect_def centerOn_def initial_geom_def Let_def identity_fields)
qed

text \<open>
  Claim C5: a wheel event with no tool selected scales the view by 1.2 (a notch in) or
  1/1.2 (a notch out) and leaves the scene point under the pointer under the pointer; with
  erase or paint selected it leaves the transform unchanged. The code does not keep the
  anchor. It computes the scene point under the pointer before and after \<^verbatim>\<open>scale\<close> and
  calls \<^verbatim>\<open>translate\<close> with the difference, but the view has the default anchor: it is
  re-centred after \<^verbatim>\<open>scale\<close> and again after \<^verbatim>\<open>translate\<close>, so the translation moves
  nothing and the zoom is about the centre of the view. After the 1000 by 600 image is
  opened in a viewport of 504 by 304 pixels, one notch in with the pointer at (52, 52)
  takes the scene point under the pointer from (100, 100) to (500/3, 400/3). (The rest of
  the claim holds: \<open>wheelEvent_geom\<close>, \<open>wheelEvent_brush\<close>. With no anchor the same handler
  keeps the point: \<open>anchor_kept_NoAnchor\<close>.)
\<close>

theorem wheel_zoom_loses_anchor:
  "tool (view sample_fitted) = ToolNone \<and>
   qt_mapToScene (qgraphicsview_toolkit AnchorViewCenter 504 304) (geom (view sample_fitted)) (52, 52)
     = (100, 100) \<and>
   qt_mapToScene (qgraphicsview_toolkit AnchorViewCenter 504 304)
      (geom (view (wheelEvent (qgraphicsview_toolkit AnchorViewCenter 504 304) sample_wheel_in sample_fitted)))
      (52, 52)
     = (500 / 3, 400 / 3) \<and>
   \<not> anchor_kept (qgraphicsview_toolkit AnchorViewCenter 504 304) sample_wheel_in sample_fitted"
proof -
  let ?T = "qgraphicsview_toolkit AnchorViewCenter 504 304"
  have before: "qt_mapToScene ?T (geom (view sample_fitted)) (52, 52) = (100, 100)"
    by (simp add: qgv_fields sample_fitted_view view_to_scene_def identity_fields)
  have g: "geom (view (wheelEvent ?T sample_wheel_in sample_fitted)) =
     \<lparr>g_transform = identity_transform\<lparr>m11 := 3 / 5, m22 := 3 / 5, m31 := 40, m32 := 20\<rparr>,
      g_hbar = 88, g_vbar = 48\<rparr>"
    by (simp add: wheelEvent_geom sample_fitted_view qgv_fields sample_wheel_in_def Let_def
          view_to_scene_def setTransform_anchored_def centerOn_def transform_scale_def
          transform_translate_def fl_sub_def identity_fields)
  have after: "qt_mapToScene ?T (geom (view (wheelEvent ?T sample_wheel_in sample_fitted))) (52, 52)
      = (500 / 3, 400 / 3)"
    by (simp add: g qgv_fields view_to_scene_def identity_fields)
  have "\<not> anchor_kept ?T sample_wheel_in sample_fitted"
    using before after by (simp add: anchor_kept_def sample_wheel_in_def)
  with before after show ?thesis by (simp add: sample_fitted_view)
qed

text \<open>
  On a view with \<^verbatim>\<open>NoAnchor\<close> whose matrix scales and translates, the handler keeps the
  scene point under the pointer, in exact arithmetic.
\<close>

lemma anchor_kept_NoAnchor:
  assumes "tool (view s) = ToolNone"
    and "m11 (g_transform (geom (view s))) \<noteq> 0" and "m22 (g_transform (geom (view s))) \<noteq> 0"
    and "m12 (g_transform (geom (view s))) = 0" and "m21 (g_transform (geom (view s))) = 0"
  shows "anchor_kept (qgraphicsview_toolkit NoAnchor vw vh) ev s"
  using assms
  by (simp add: anchor_kept_def wheelEvent_geom qgv_fields Let_def view_to_scene_def
        setTransform_anchored_def transform_scale_def transform_translate_def fl_sub_def fl_div_def
        field_simps)

end
